theory Spec2Isabelle
  imports Main
begin

section \<open>Instants and sessions\<close>

text \<open>
  A JavaScript \<open>Date\<close> is a millisecond count. The service runs in one configured civil
  time zone without daylight saving, so an instant is kept as the number of milliseconds
  since 1970-01-01 00:00 of that civil time line: comparisons and differences of instants
  are the ones of \<open>getTime()\<close>, and the local calendar fields are read off directly.
\<close>

type_synonym instant = int

record ClassSession =
  sessionStartDateTime :: instant
  sessionEndDateTime :: instant

section \<open>Calendar fields of an instant\<close>

text \<open>
  The generator reads the local calendar through \<open>getDate\<close>, \<open>getDay\<close> and the date-fns
  helpers \<open>addDays\<close>, \<open>addMinutes\<close>, \<open>differenceInDays\<close>, \<open>differenceInWeeks\<close>,
  \<open>isLastDayOfMonth\<close> and \<open>lastDayOfMonth\<close>. They belong to the runtime and to the
  date-fns package; they are given here by the proleptic Gregorian calendar.
\<close>

definition msPerDay :: int where
  "msPerDay = 86400000"

definition dayNumber :: "instant \<Rightarrow> int" where
  "dayNumber t = t div msPerDay"

definition startOfDay :: "instant \<Rightarrow> instant" where
  "startOfDay t = dayNumber t * msPerDay"

definition isLeapYear :: "int \<Rightarrow> bool" where
  "isLeapYear y \<longleftrightarrow> y mod 4 = 0 \<and> (y mod 100 \<noteq> 0 \<or> y mod 400 = 0)"

definition daysInYear :: "int \<Rightarrow> int" where
  "daysInYear y = (if isLeapYear y then 366 else 365)"

definition monthLengths :: "int \<Rightarrow> int list" where
  "monthLengths y =
     [31, if isLeapYear y then 29 else 28, 31, 30, 31, 30, 31, 31, 30, 31, 30, 31]"

text \<open>Walk from year \<open>y\<close> to the year holding day offset \<open>n\<close> (counted from 1 January of \<open>y\<close>).\<close>

function yearOfDay :: "int \<Rightarrow> int \<Rightarrow> int \<times> int" where
  "yearOfDay y n =
     (if n < 0 then yearOfDay (y - 1) (n + daysInYear (y - 1))
      else if daysInYear y \<le> n then yearOfDay (y + 1) (n - daysInYear y)
      else (y, n))"
  by pat_completeness auto
termination
  by (relation "measure (\<lambda>(y, n). if n < 0 then nat (- n) + 1 else nat (n div 365))")
     (auto simp: daysInYear_def)

declare yearOfDay.simps [simp del]

text \<open>Walk the months of a year: the month index (0 = January) and the day of the month.\<close>

fun monthOfDay :: "int list \<Rightarrow> int \<Rightarrow> int \<Rightarrow> int \<times> int" where
  "monthOfDay [] m r = (m, r + 1)"
| "monthOfDay (len # rest) m r =
     (if r < len then (m, r + 1) else monthOfDay rest (m + 1) (r - len))"

definition getFullYear :: "instant \<Rightarrow> int" where
  "getFullYear t = fst (yearOfDay 1970 (dayNumber t))"

definition dayOfYear :: "instant \<Rightarrow> int" where
  "dayOfYear t = snd (yearOfDay 1970 (dayNumber t))"

definition getMonth :: "instant \<Rightarrow> int" where
  "getMonth t = fst (monthOfDay (monthLengths (getFullYear t)) 0 (dayOfYear t))"

definition getDate :: "instant \<Rightarrow> int" where
  "getDate t = snd (monthOfDay (monthLengths (getFullYear t)) 0 (dayOfYear t))"

text \<open>1 January 1970 was a Thursday; \<open>getDay\<close> counts from Sunday = 0.\<close>

definition getDay :: "instant \<Rightarrow> int" where
  "getDay t = (dayNumber t + 4) mod 7"

definition daysInMonth :: "int \<Rightarrow> int \<Rightarrow> int" where
  "daysInMonth y m = (if 0 \<le> m \<and> m < 12 then monthLengths y ! nat m else 0)"

definition addDays :: "instant \<Rightarrow> int \<Rightarrow> instant" where
  "addDays t n = t + n * msPerDay"

definition addMinutes :: "instant \<Rightarrow> int \<Rightarrow> instant" where
  "addMinutes t n = t + n * 60000"

text \<open>\<open>setHours(h, m, 0, 0)\<close>: the given clock time on the local day of \<open>t\<close>.\<close>

definition setHours :: "instant \<Rightarrow> int \<Rightarrow> int \<Rightarrow> instant" where
  "setHours t h m = startOfDay t + h * 3600000 + m * 60000"

text \<open>Full days between two instants, truncated towards zero.\<close>

definition differenceInDays :: "instant \<Rightarrow> instant \<Rightarrow> int" where
  "differenceInDays later earlier =
     (if earlier \<le> later then (later - earlier) div msPerDay
      else - ((earlier - later) div msPerDay))"

definition differenceInWeeks :: "instant \<Rightarrow> instant \<Rightarrow> int" where
  "differenceInWeeks later earlier =
     (let d = differenceInDays later earlier
      in if 0 \<le> d then d div 7 else - ((- d) div 7))"

text \<open>Midnight of the last day of the month of \<open>t\<close>.\<close>

definition lastDayOfMonth :: "instant \<Rightarrow> instant" where
  "lastDayOfMonth t =
     (dayNumber t - getDate t + daysInMonth (getFullYear t) (getMonth t)) * msPerDay"

definition endOfDay :: "instant \<Rightarrow> instant" where
  "endOfDay t = startOfDay t + (msPerDay - 1)"

definition endOfMonth :: "instant \<Rightarrow> instant" where
  "endOfMonth t = lastDayOfMonth t + (msPerDay - 1)"

definition isLastDayOfMonth :: "instant \<Rightarrow> bool" where
  "isLastDayOfMonth t \<longleftrightarrow> endOfDay t = endOfMonth t"

text \<open>
  The JavaScript remainder \<open>a % b\<close> on integers: \<open>NaN\<close> (here \<open>None\<close>) for \<open>b = 0\<close>,
  otherwise the remainder of the truncated division, with the sign of \<open>a\<close>.
\<close>

definition jsRemainder :: "int \<Rightarrow> int \<Rightarrow> int option" where
  "jsRemainder a b = (if b = 0 then None else Some (sgn a * (\<bar>a\<bar> mod \<bar>b\<bar>)))"

section \<open>Creating one validated session\<close>

text \<open>
  A clock time \<open>"HH:mm"\<close> after \<open>split(":").map(Number)\<close>: the hour and the minute, each
  \<open>None\<close> when the component is missing or is not a number.
\<close>

type_synonym time24h = "int option \<times> int option"

record TimeSlot =
  startTime24h :: time24h
  endTime24h :: time24h

text \<open>
  The errors of one slot: the time format error, "end time must be after start time",
  and "Class duration is too short" with the rounded duration in minutes.
\<close>

datatype slot_error =
    InvalidTimeFormat
  | InvalidTimeRange
  | DurationTooShort int

definition MINIMUM_ALLOWED_DURATION_MINUTES :: int where
  "MINIMUM_ALLOWED_DURATION_MINUTES = 30"

text \<open>
  \<open>createValidClassSessionFromDateAndTimes\<close>. Both instants are whole minutes, so the
  duration test \<open>(end - start) / 60000 < 30\<close> is written on the milliseconds.
\<close>

definition createValidClassSessionFromDateAndTimes ::
    "instant \<Rightarrow> time24h \<Rightarrow> time24h \<Rightarrow> slot_error + ClassSession" where
  "createValidClassSessionFromDateAndTimes baseDate startTime endTime =
     (case (fst startTime, snd startTime, fst endTime, snd endTime) of
        (Some startHour, Some startMinute, Some endHour, Some endMinute) \<Rightarrow>
          (let sessionStart = setHours baseDate startHour startMinute;
               sessionEnd = setHours baseDate endHour endMinute
           in if sessionEnd \<le> sessionStart then Inl InvalidTimeRange
              else if sessionEnd - sessionStart < MINIMUM_ALLOWED_DURATION_MINUTES * 60000
                then Inl (DurationTooShort ((sessionEnd - sessionStart) div 60000))
              else Inr \<lparr>sessionStartDateTime = sessionStart,
                        sessionEndDateTime = sessionEnd\<rparr>)
      | _ \<Rightarrow> Inl InvalidTimeFormat)"

section \<open>Generating the sessions of a series\<close>

text \<open>
  The enum \<open>RecurrenceStrategy\<close> of the class model. The generator compares
  \<open>recurrenceType\<close> with the values of its members: \<open>SINGLE_INSTANCE = "none"\<close>,
  \<open>EVERY_DAY = "daily"\<close>, \<open>SPECIFIC_WEEKDAYS = "weekly"\<close>,
  \<open>SPECIFIC_MONTH_DAYS = "monthly"\<close> and \<open>CUSTOM_LOGIC = "custom"\<close>.
\<close>

datatype RecurrenceStrategy = SINGLE_INSTANCE | EVERY_DAY | SPECIFIC_WEEKDAYS | SPECIFIC_MONTH_DAYS | CUSTOM_LOGIC

text \<open>A \<open>Date\<close> built from a request field: \<open>None\<close> is the Invalid Date.\<close>

type_synonym jsdate = "instant option"

text \<open>
  The request body. An absent (\<open>undefined\<close>) date or interval is \<open>None\<close>; an absent list
  is the empty list, as the destructuring defaults make it.
\<close>

record payload =
  seriesStartDate :: "jsdate option"
  seriesEndDate :: "jsdate option"
  recurrenceType :: RecurrenceStrategy
  dailyTimeSlots :: "TimeSlot list"
  selectedWeekdays :: "int list"
  selectedMonthDays :: "int list"
  repeatEveryXWeeksOrDays :: "int option"
  manuallyChosenDates :: "jsdate list"

text \<open>
  The errors the generator throws, one constructor for each \<open>throw\<close>:
  \<^item> \<open>NoTimeSlots\<close>: "At least one time slot (dailyTimeSlots) is required";
  \<^item> \<open>MissingBoundary\<close>: "Custom pattern mode requires both seriesStartDate and
    seriesEndDate";
  \<^item> \<open>InvalidDateFormat\<close>: "Invalid date format in custom pattern mode";
  \<^item> \<open>InvalidRange\<close>: "seriesStartDate cannot be after seriesEndDate";
  \<^item> \<open>InvalidSeriesStartDate\<close>: "Invalid seriesStartDate";
  \<^item> \<open>NoFutureSessions CustomSafetyNet\<close>: "No valid sessions generated in custom mode",
    the safety net at the end of the custom kind;
  \<^item> \<open>NoFutureSessions FinalSafetyNet\<close>: "No future sessions could be generated", the
    safety net at the end of the other kinds.
\<close>

datatype safety_net = CustomSafetyNet | FinalSafetyNet

datatype gen_error =
    NoTimeSlots
  | MissingBoundary
  | InvalidDateFormat
  | InvalidRange
  | InvalidSeriesStartDate
  | NoFutureSessions safety_net

text \<open>\<open>new Date(field)\<close>: an absent field gives the Invalid Date.\<close>

definition newDate :: "jsdate option \<Rightarrow> jsdate" where
  "newDate field = (case field of None \<Rightarrow> None | Some d \<Rightarrow> d)"

definition intervalOf :: "payload \<Rightarrow> int" where
  "intervalOf p = (case repeatEveryXWeeksOrDays p of None \<Rightarrow> 1 | Some n \<Rightarrow> n)"

text \<open>
  The body of \<open>dailyTimeSlots.forEach\<close>, the same in the three modes: a slot whose
  session cannot be created is caught and skipped with a warning, a session that starts
  before the earliest allowed start is not pushed.
\<close>

fun pushSlotSessions ::
    "instant \<Rightarrow> instant \<Rightarrow> TimeSlot list \<Rightarrow> ClassSession list \<Rightarrow> ClassSession list" where
  "pushSlotSessions earliestAllowedStart baseDate [] generatedSessions = generatedSessions"
| "pushSlotSessions earliestAllowedStart baseDate (slot # rest) generatedSessions =
     (case createValidClassSessionFromDateAndTimes baseDate (startTime24h slot) (endTime24h slot) of
        Inl err \<Rightarrow> pushSlotSessions earliestAllowedStart baseDate rest generatedSessions
      | Inr session \<Rightarrow>
          if sessionStartDateTime session \<ge> earliestAllowedStart
          then pushSlotSessions earliestAllowedStart baseDate rest (generatedSessions @ [session])
          else pushSlotSessions earliestAllowedStart baseDate rest generatedSessions)"

text \<open>Mode 1 of the custom kind: the manually chosen dates, an invalid date skipped.\<close>

fun manualDatesLoop ::
    "instant \<Rightarrow> TimeSlot list \<Rightarrow> jsdate list \<Rightarrow> ClassSession list \<Rightarrow> ClassSession list" where
  "manualDatesLoop earliestAllowedStart slots [] generatedSessions = generatedSessions"
| "manualDatesLoop earliestAllowedStart slots (d # ds) generatedSessions =
     (case d of
        None \<Rightarrow> manualDatesLoop earliestAllowedStart slots ds generatedSessions
      | Some baseDate \<Rightarrow>
          manualDatesLoop earliestAllowedStart slots ds
            (pushSlotSessions earliestAllowedStart baseDate slots generatedSessions))"

text \<open>Mode 2 of the custom kind: the day-by-day walk of the interval pattern.\<close>

definition customMatches :: "payload \<Rightarrow> instant \<Rightarrow> instant \<Rightarrow> bool" where
  "customMatches p seriesStart currentDate =
     (let weeksSincePatternStart = differenceInWeeks currentDate seriesStart;
          intervalWeeks = max 1 (if intervalOf p = 0 then 1 else intervalOf p);
          isMatchingInterval = (jsRemainder weeksSincePatternStart intervalWeeks = Some 0);
          isMatchingWeekday =
            (selectedWeekdays p = [] \<or> getDay currentDate \<in> set (selectedWeekdays p))
      in isMatchingInterval \<and> isMatchingWeekday)"

function customPatternLoop ::
    "payload \<Rightarrow> instant \<Rightarrow> instant \<Rightarrow> instant \<Rightarrow> instant \<Rightarrow> ClassSession list
       \<Rightarrow> ClassSession list" where
  "customPatternLoop p earliestAllowedStart seriesStart currentDate patternEndDate generatedSessions =
     (if currentDate \<le> patternEndDate
      then customPatternLoop p earliestAllowedStart seriesStart (addDays currentDate 1) patternEndDate
             (if customMatches p seriesStart currentDate
              then pushSlotSessions earliestAllowedStart currentDate (dailyTimeSlots p)
                     generatedSessions
              else generatedSessions)
      else generatedSessions)"
  by pat_completeness auto
termination
  by (relation "measure (\<lambda>(p, e, s, c, pe, g). nat (pe - c + 1))")
     (auto simp: addDays_def msPerDay_def)

declare customPatternLoop.simps [simp del]

text \<open>The standard kinds: whether the day under the cursor is part of the series.\<close>

definition shouldIncludeThisDay :: "payload \<Rightarrow> instant \<Rightarrow> instant \<Rightarrow> bool" where
  "shouldIncludeThisDay p seriesStart currentDateCursor =
     (if recurrenceType p = EVERY_DAY then
        jsRemainder (differenceInDays currentDateCursor seriesStart) (intervalOf p) = Some 0
      else if recurrenceType p = SPECIFIC_WEEKDAYS then
        jsRemainder (differenceInWeeks currentDateCursor seriesStart) (intervalOf p) = Some 0 \<and>
        getDay currentDateCursor \<in> set (selectedWeekdays p)
      else if recurrenceType p = SPECIFIC_MONTH_DAYS then
        getDate currentDateCursor \<in> set (selectedMonthDays p) \<or>
        (isLastDayOfMonth currentDateCursor \<and>
         (\<exists>d \<in> set (selectedMonthDays p). d > getDate (lastDayOfMonth currentDateCursor)))
      else if recurrenceType p = SINGLE_INSTANCE then True
      else False)"

function standardLoop ::
    "payload \<Rightarrow> instant \<Rightarrow> instant \<Rightarrow> instant \<Rightarrow> instant \<Rightarrow> ClassSession list
       \<Rightarrow> ClassSession list" where
  "standardLoop p earliestAllowedStart seriesStart currentDateCursor recurrenceEndBoundary
       generatedSessions =
     (if currentDateCursor \<le> recurrenceEndBoundary
      then
        (let generated =
               (if shouldIncludeThisDay p seriesStart currentDateCursor
                then pushSlotSessions earliestAllowedStart currentDateCursor (dailyTimeSlots p)
                       generatedSessions
                else generatedSessions)
         in if recurrenceType p = SINGLE_INSTANCE then generated
            else standardLoop p earliestAllowedStart seriesStart (addDays currentDateCursor 1)
                   recurrenceEndBoundary generated)
      else generatedSessions)"
  by pat_completeness auto
termination
  by (relation "measure (\<lambda>(p, e, s, c, re, g). nat (re - c + 1))")
     (auto simp: addDays_def msPerDay_def)

declare standardLoop.simps [simp del]

text \<open>
  \<open>generateAllClassSessions\<close>, with the clock reading \<open>new Date()\<close> as the argument
  \<open>now\<close>. A comparison with the Invalid Date is false, so an unparseable end date of a
  standard kind leaves the walk without a single day.
\<close>

definition generateAllClassSessions :: "payload \<Rightarrow> instant \<Rightarrow> gen_error + ClassSession list" where
  "generateAllClassSessions p now =
     (if dailyTimeSlots p = [] then Inl NoTimeSlots
      else
        let earliestAllowedStart = addMinutes now 30 in
        if recurrenceType p = CUSTOM_LOGIC then
          (if manuallyChosenDates p \<noteq> [] then
             (let generatedSessions =
                    manualDatesLoop earliestAllowedStart (dailyTimeSlots p)
                      (manuallyChosenDates p) []
              in if generatedSessions = [] then Inl (NoFutureSessions CustomSafetyNet)
                 else Inr generatedSessions)
           else
             (case (seriesStartDate p, seriesEndDate p) of
                (Some startField, Some endField) \<Rightarrow>
                  (case (startField, endField) of
                     (Some currentDate, Some patternEndDate) \<Rightarrow>
                       if currentDate > patternEndDate then Inl InvalidRange
                       else
                         (let generatedSessions =
                                customPatternLoop p earliestAllowedStart currentDate currentDate
                                  patternEndDate []
                          in if generatedSessions = [] then Inl (NoFutureSessions CustomSafetyNet)
                             else Inr generatedSessions)
                   | _ \<Rightarrow> Inl InvalidDateFormat)
              | _ \<Rightarrow> Inl MissingBoundary))
        else
          (case newDate (seriesStartDate p) of
             None \<Rightarrow> Inl InvalidSeriesStartDate
           | Some currentDateCursor \<Rightarrow>
               (let recurrenceEndBoundary =
                      (case seriesEndDate p of
                         Some endField \<Rightarrow> endField
                       | None \<Rightarrow> Some currentDateCursor);
                    generatedSessions =
                      (case recurrenceEndBoundary of
                         None \<Rightarrow> []
                       | Some boundary \<Rightarrow>
                           standardLoop p earliestAllowedStart currentDateCursor
                             currentDateCursor boundary [])
                in if generatedSessions = [] then Inl (NoFutureSessions FinalSafetyNet)
                   else Inr generatedSessions)))"

subsection \<open>The days a request walks over\<close>

text \<open>
  The cursor values of a day-by-day walk, and the days of a request on which the slots
  are emitted. The generator is shown below to emit the slots on exactly these days, in
  this order.
\<close>

function daysFrom :: "instant \<Rightarrow> instant \<Rightarrow> instant list" where
  "daysFrom cursor boundary =
     (if cursor \<le> boundary then cursor # daysFrom (addDays cursor 1) boundary else [])"
  by pat_completeness auto
termination
  by (relation "measure (\<lambda>(c, b). nat (b - c + 1))") (auto simp: addDays_def msPerDay_def)

declare daysFrom.simps [simp del]

definition validDates :: "jsdate list \<Rightarrow> instant list" where
  "validDates ds = concat (map (\<lambda>d. case d of None \<Rightarrow> [] | Some t \<Rightarrow> [t]) ds)"

definition includedDays :: "payload \<Rightarrow> gen_error + instant list" where
  "includedDays p =
     (if dailyTimeSlots p = [] then Inl NoTimeSlots
      else if recurrenceType p = CUSTOM_LOGIC then
        (if manuallyChosenDates p \<noteq> [] then Inr (validDates (manuallyChosenDates p))
         else
           (case (seriesStartDate p, seriesEndDate p) of
              (Some startField, Some endField) \<Rightarrow>
                (case (startField, endField) of
                   (Some s, Some e) \<Rightarrow>
                     if s > e then Inl InvalidRange
                     else Inr (filter (customMatches p s) (daysFrom s e))
                 | _ \<Rightarrow> Inl InvalidDateFormat)
            | _ \<Rightarrow> Inl MissingBoundary))
      else
        (case newDate (seriesStartDate p) of
           None \<Rightarrow> Inl InvalidSeriesStartDate
         | Some s \<Rightarrow>
             (case (case seriesEndDate p of Some endField \<Rightarrow> endField | None \<Rightarrow> Some s) of
                None \<Rightarrow> Inr []
              | Some b \<Rightarrow>
                  Inr (filter (shouldIncludeThisDay p s)
                        (if recurrenceType p = SINGLE_INSTANCE
                         then (if s \<le> b then [s] else [])
                         else daysFrom s b)))))"

definition sessionsOnDays :: "instant \<Rightarrow> TimeSlot list \<Rightarrow> instant list \<Rightarrow> ClassSession list" where
  "sessionsOnDays earliestAllowedStart slots days =
     concat (map (\<lambda>d. pushSlotSessions earliestAllowedStart d slots []) days)"

definition safetyNetOf :: "payload \<Rightarrow> safety_net" where
  "safetyNetOf p = (if recurrenceType p = CUSTOM_LOGIC then CustomSafetyNet else FinalSafetyNet)"

section \<open>Exception reconciliation of a bulk update\<close>

text \<open>
  The exception entries of the class model (\<open>IInstanceException\<close> and the \<open>exceptions\<close>
  path of the schema): the anchor \<open>originalStart\<close> is required, the status is
  \<open>"modified"\<close> or \<open>"cancelled"\<close>, the reason is a string that defaults to the empty
  string, and the overrides \<open>newStart\<close> and \<open>newEnd\<close> are optional whatever the status.
\<close>

datatype exception_status = modified | cancelled

record IInstanceException =
  originalStart :: instant
  status :: exception_status
  reason :: string
  newStart :: "instant option"
  newEnd :: "instant option"

text \<open>Reading a property of \<open>undefined\<close> raises a \<open>TypeError\<close>.\<close>

datatype runtime_error = TypeError

text \<open>
  A session after the \<open>map\<close> of step 2 of \<open>updateEntireClassSeries\<close>: the generated
  session with \<open>sessionStartDateTime\<close> and \<open>sessionEndDateTime\<close> replaced by \<open>newStart\<close>
  and \<open>newEnd\<close> of the manual edit. The non-null assertions of the source check nothing
  when the code runs, so either of the two may be \<open>undefined\<close>, here \<open>None\<close>.
\<close>

record MergedSession =
  mergedStart :: "instant option"
  mergedEnd :: "instant option"

text \<open>
  The \<open>map\<close>: the first exception with status \<open>modified\<close> anchored at the start of the
  session, when there is one, gives the new start and end.
\<close>

definition applyManualEdit :: "IInstanceException list \<Rightarrow> ClassSession \<Rightarrow> MergedSession" where
  "applyManualEdit exs sess =
     (case find (\<lambda>ex. originalStart ex = sessionStartDateTime sess \<and> status ex = modified) exs of
        None \<Rightarrow>
          \<lparr>mergedStart = Some (sessionStartDateTime sess),
           mergedEnd = Some (sessionEndDateTime sess)\<rparr>
      | Some manualEdit \<Rightarrow>
          \<lparr>mergedStart = newStart manualEdit, mergedEnd = newEnd manualEdit\<rparr>)"

text \<open>
  The test of the \<open>filter\<close>, \<open>exceptions.some(...)\<close>, on a mapped session: it compares the
  anchors with the start the session has after the \<open>map\<close>. The callback calls
  \<open>getTime()\<close> on that start for the first exception already, which raises when the
  start is \<open>undefined\<close>; on an empty exception list the callback never runs.
\<close>

definition isCancelledAt :: "IInstanceException list \<Rightarrow> MergedSession \<Rightarrow> runtime_error + bool" where
  "isCancelledAt exs sess =
     (if exs = [] then Inr False
      else case mergedStart sess of
             None \<Rightarrow> Inl TypeError
           | Some t \<Rightarrow> Inr (\<exists>ex \<in> set exs. originalStart ex = t \<and> status ex = cancelled))"

fun filterCancelled ::
    "IInstanceException list \<Rightarrow> MergedSession list \<Rightarrow> runtime_error + MergedSession list" where
  "filterCancelled exs [] = Inr []"
| "filterCancelled exs (sess # rest) =
     (case isCancelledAt exs sess of
        Inl err \<Rightarrow> Inl err
      | Inr isCancelled \<Rightarrow>
          (case filterCancelled exs rest of
             Inl err \<Rightarrow> Inl err
           | Inr rest' \<Rightarrow> Inr (if isCancelled then rest' else sess # rest')))"

definition reconcileExceptions ::
    "IInstanceException list \<Rightarrow> ClassSession list \<Rightarrow> runtime_error + MergedSession list" where
  "reconcileExceptions exs newSessions =
     filterCancelled exs (map (applyManualEdit exs) newSessions)"

section \<open>The stored documents\<close>

type_synonym oid = nat

text \<open>A session embedded in a series document carries the identifier the store gave it.\<close>

record IIndividualClassSession = ClassSession +
  sessionId :: oid

text \<open>
  A series document of the class model (\<open>IClassSchedule\<close> and \<open>ClassScheduleSchema\<close>):
  its identity, the title, the instructor and room references, the rule fields of the
  request (flat in the schema, kept together in \<open>rule\<close> here), the sessions and the
  exceptions.
\<close>

record IClassSchedule =
  docId :: oid
  classTitle :: string
  assignedInstructor :: oid
  assignedRoom :: oid
  rule :: payload
  preGeneratedClassSessions :: "IIndividualClassSession list"
  exceptions :: "IInstanceException list"

text \<open>
  The store: the series documents in their natural order, the names of the instructors
  and rooms that \<open>populate\<close> looks up, and the next fresh identifier.
\<close>

record store =
  classes :: "IClassSchedule list"
  instructorNames :: "oid \<rightharpoonup> string"
  roomNames :: "oid \<rightharpoonup> string"
  nextId :: oid

definition findById :: "store \<Rightarrow> oid \<Rightarrow> IClassSchedule option" where
  "findById st i = find (\<lambda>d. docId d = i) (classes st)"

definition save :: "store \<Rightarrow> IClassSchedule \<Rightarrow> store" where
  "save st doc = st\<lparr>classes := map (\<lambda>d. if docId d = docId doc then doc else d) (classes st)\<rparr>"

text \<open>
  The schema declares \<open>classTitle\<close> with \<open>trim: true\<close> and \<open>required: true\<close>. The setter
  trims a title when it is assigned or passed to \<open>create\<close>: it removes the white space
  at both ends. A character is a code unit below 256 here, so the white space is tab,
  line feed, vertical tab, form feed, carriage return, space and no-break space.
\<close>

definition isWhiteSpace :: "char \<Rightarrow> bool" where
  "isWhiteSpace c \<longleftrightarrow> (of_char c :: nat) \<in> {9, 10, 11, 12, 13, 32, 160}"

definition trim :: "string \<Rightarrow> string" where
  "trim s = rev (dropWhile isWhiteSpace (rev (dropWhile isWhiteSpace s)))"

text \<open>
  \<open>save\<close> and \<open>create\<close> validate the document first and reject when a required path is
  empty. The title is the one required path that can be empty in the documents built
  here: a required string fails on the empty string. The other required paths
  (instructor, room, kind, series start, the start and end of a session, the anchor of an
  exception) always hold a value.
\<close>

definition requiredPathsPresent :: "IClassSchedule \<Rightarrow> bool" where
  "requiredPathsPresent doc \<longleftrightarrow> classTitle doc \<noteq> []"

definition saveValidated :: "store \<Rightarrow> IClassSchedule \<Rightarrow> store option" where
  "saveValidated st doc = (if requiredPathsPresent doc then Some (save st doc) else None)"

section \<open>The conflict finder\<close>

subsection \<open>The overlap test\<close>

text \<open>
  The store query (\<open>$elemMatch\<close>) keeps an existing session when
  \<open>existing.start < new.end\<close> and \<open>existing.end > new.start\<close> for some requested session.
\<close>

definition elemMatchOverlap :: "'a ClassSession_scheme \<Rightarrow> 'b ClassSession_scheme \<Rightarrow> bool" where
  "elemMatchOverlap existing newSess \<longleftrightarrow>
     sessionStartDateTime existing < sessionEndDateTime newSess \<and>
     sessionEndDateTime existing > sessionStartDateTime newSess"

text \<open>
  The re-scan of the found document (\<open>find\<close> with \<open>some\<close>) tests
  \<open>proposed.start < existing.end\<close> and \<open>proposed.end > existing.start\<close>.
\<close>

definition rescanOverlap :: "'a ClassSession_scheme \<Rightarrow> 'b ClassSession_scheme \<Rightarrow> bool" where
  "rescanOverlap proposed existing \<longleftrightarrow>
     sessionStartDateTime proposed < sessionEndDateTime existing \<and>
     sessionEndDateTime proposed > sessionStartDateTime existing"

text \<open>The \<open>$elemMatch\<close> of the query: some stored session overlaps some requested session.\<close>

definition hasOverlappingSession :: "ClassSession list \<Rightarrow> IClassSchedule \<Rightarrow> bool" where
  "hasOverlappingSession requestedSessions doc \<longleftrightarrow>
     (\<exists>existing \<in> set (preGeneratedClassSessions doc).
        \<exists>newSess \<in> set requestedSessions. elemMatchOverlap existing newSess)"

text \<open>The re-scan of the found document for the first overlapping session.\<close>

definition findOverlappingSession ::
    "ClassSession list \<Rightarrow> IClassSchedule \<Rightarrow> IIndividualClassSession option" where
  "findOverlappingSession requestedSessions doc =
     find (\<lambda>existing. \<exists>proposed \<in> set requestedSessions. rescanOverlap proposed existing)
       (preGeneratedClassSessions doc)"

definition notIgnored :: "oid option \<Rightarrow> IClassSchedule \<Rightarrow> bool" where
  "notIgnored ignoreSeriesId doc \<longleftrightarrow>
     (case ignoreSeriesId of None \<Rightarrow> True | Some i \<Rightarrow> docId doc \<noteq> i)"

datatype conflict_field = assignedInstructorField | assignedRoomField

text \<open>
  The message of a conflict, kept as the template and the values put into it; the two
  instants stand for the formatted start and end of the overlapping session.
\<close>

datatype occupied_entity =
    InstructorAndRoomAreBoth string string
  | InstructorIs string
  | RoomIs string

datatype conflict_message =
    InstructorAlreadyTeaching string string instant instant
  | RoomAlreadyReserved string string instant instant
  | ConflictDetected occupied_entity instant instant

record ConflictReport =
  field :: conflict_field
  message :: conflict_message

subsection \<open>The finder with one query for room or instructor\<close>


subsection \<open>The finder with one query for the instructor and one for the room\<close>

definition baseQuery ::
    "ClassSession list \<Rightarrow> oid option \<Rightarrow> (IClassSchedule \<Rightarrow> oid) \<Rightarrow> oid
       \<Rightarrow> IClassSchedule \<Rightarrow> bool" where
  "baseQuery requestedSessions ignoreSeriesId fld i doc \<longleftrightarrow>
     fld doc = i \<and> notIgnored ignoreSeriesId doc \<and> hasOverlappingSession requestedSessions doc"

definition findDetailedSchedulingConflict ::
    "store \<Rightarrow> ClassSession list \<Rightarrow> oid \<Rightarrow> oid \<Rightarrow> oid option
       \<Rightarrow> runtime_error + ConflictReport option" where
  "findDetailedSchedulingConflict st requestedSessions targetRoomId targetInstructorId
       ignoreSeriesId =
     (let instructorConflict =
            find (baseQuery requestedSessions ignoreSeriesId assignedInstructor targetInstructorId)
              (classes st);
          roomConflict =
            find (baseQuery requestedSessions ignoreSeriesId assignedRoom targetRoomId)
              (classes st)
      in if instructorConflict = None \<and> roomConflict = None then Inr None
         else
           (let conflictSource =
                  (case instructorConflict of Some d \<Rightarrow> Some d | None \<Rightarrow> roomConflict)
            in case conflictSource of
                 None \<Rightarrow> Inl TypeError
               | Some src \<Rightarrow>
                   (case findOverlappingSession requestedSessions src of
                      None \<Rightarrow> Inl TypeError
                    | Some overlappingSession \<Rightarrow>
                        (case (instructorConflict, roomConflict) of
                           (Some ic, Some rc) \<Rightarrow>
                             (case (instructorNames st (assignedInstructor ic),
                                    roomNames st (assignedRoom rc)) of
                                (Some teacher, Some room) \<Rightarrow>
                                  Inr (Some
                                    \<lparr>field = assignedInstructorField,
                                     message = ConflictDetected
                                       (InstructorAndRoomAreBoth teacher room)
                                       (sessionStartDateTime overlappingSession)
                                       (sessionEndDateTime overlappingSession)\<rparr>)
                              | _ \<Rightarrow> Inl TypeError)
                         | (Some ic, None) \<Rightarrow>
                             (case instructorNames st (assignedInstructor ic) of
                                Some teacher \<Rightarrow>
                                  Inr (Some
                                    \<lparr>field = assignedInstructorField,
                                     message = ConflictDetected (InstructorIs teacher)
                                       (sessionStartDateTime overlappingSession)
                                       (sessionEndDateTime overlappingSession)\<rparr>)
                              | None \<Rightarrow> Inl TypeError)
                         | (None, _) \<Rightarrow>
                             (case (case roomConflict of
                                      Some rc \<Rightarrow> roomNames st (assignedRoom rc)
                                    | None \<Rightarrow> None) of
                                Some room \<Rightarrow>
                                  Inr (Some
                                    \<lparr>field = assignedRoomField,
                                     message = ConflictDetected (RoomIs room)
                                       (sessionStartDateTime overlappingSession)
                                       (sessionEndDateTime overlappingSession)\<rparr>)
                              | None \<Rightarrow> Inl TypeError)))))"

section \<open>Updating a single instance\<close>

text \<open>The validated body of the request; an absent field is \<open>None\<close>.\<close>

record instanceBody =
  bodyNewStart :: "instant option"
  bodyNewEnd :: "instant option"
  bodyReason :: string
  bodyClassTitle :: "string option"
  bodyAssignedInstructor :: "oid option"
  bodyAssignedRoom :: "oid option"

datatype response =
    NotFound string
  | Updated IClassSchedule
  | Conflict ConflictReport
  | UpdateError
  | DetachedSuccessfully IClassSchedule oid

text \<open>\<open>a || b\<close> on an optional string: the empty string is falsy.\<close>

definition orElseString :: "string option \<Rightarrow> string \<Rightarrow> string" where
  "orElseString a b = (case a of None \<Rightarrow> b | Some s \<Rightarrow> if s = [] then b else s)"

text \<open>\<open>a || b\<close> on an optional identifier or date, which is truthy when present.\<close>

definition orElse :: "'a option \<Rightarrow> 'a \<Rightarrow> 'a" where
  "orElse a b = (case a of None \<Rightarrow> b | Some x \<Rightarrow> x)"

text \<open>\<open>format(t, "HH:mm")\<close>, read back as hour and minute.\<close>

definition formatHHmm :: "instant \<Rightarrow> time24h" where
  "formatHHmm t = (Some ((t mod msPerDay) div 3600000), Some ((t mod 3600000) div 60000))"

text \<open>
  \<open>ClassSchedule.create\<close> of the detached class: the title is trimmed, the document is
  validated, and the store gives the identifiers of the document and of its session.
\<close>

definition createStandalone ::
    "store \<Rightarrow> string \<Rightarrow> oid \<Rightarrow> oid \<Rightarrow> instant \<Rightarrow> instant \<Rightarrow> (IClassSchedule \<times> store) option" where
  "createStandalone st title instructor room finalStart finalEnd =
     (let newDoc =
            \<lparr>docId = nextId st,
             classTitle = trim title,
             assignedInstructor = instructor,
             assignedRoom = room,
             rule =
               \<lparr>seriesStartDate = Some (Some finalStart),
                seriesEndDate = Some (Some finalEnd),
                recurrenceType = SINGLE_INSTANCE,
                dailyTimeSlots =
                  [\<lparr>startTime24h = formatHHmm finalStart, endTime24h = formatHHmm finalEnd\<rparr>],
                selectedWeekdays = [],
                selectedMonthDays = [],
                repeatEveryXWeeksOrDays = Some 1,
                manuallyChosenDates = []\<rparr>,
             preGeneratedClassSessions =
               [\<lparr>sessionStartDateTime = finalStart, sessionEndDateTime = finalEnd,
                 sessionId = nextId st + 1\<rparr>],
             exceptions = []\<rparr>
      in if requiredPathsPresent newDoc
         then Some (newDoc, st\<lparr>classes := classes st @ [newDoc], nextId := nextId st + 2\<rparr>)
         else None)"

text \<open>
  \<open>updateSingleInstance\<close>. Every error raised inside the \<open>try\<close> (a \<open>TypeError\<close>, a
  rejected validation) is answered with "Update Error"; what was written before the
  error stays written.
\<close>

definition updateSingleInstance ::
    "store \<Rightarrow> oid \<Rightarrow> oid \<Rightarrow> instanceBody \<Rightarrow> response \<times> store" where
  "updateSingleInstance st seriesId sessId body =
     (case findById st seriesId of
        None \<Rightarrow> (NotFound ''Series not found'', st)
      | Some series \<Rightarrow>
          if recurrenceType (rule series) = SINGLE_INSTANCE then
            (let series1 = series
                   \<lparr>classTitle := trim (orElseString (bodyClassTitle body) (classTitle series)),
                    assignedInstructor :=
                      orElse (bodyAssignedInstructor body) (assignedInstructor series),
                    assignedRoom := orElse (bodyAssignedRoom body) (assignedRoom series)\<rparr>
             in case preGeneratedClassSessions series1 of
                  [] \<Rightarrow>
                    if bodyNewStart body \<noteq> None \<or> bodyNewEnd body \<noteq> None then (UpdateError, st)
                    else (case saveValidated st series1 of
                            None \<Rightarrow> (UpdateError, st)
                          | Some st1 \<Rightarrow> (Updated series1, st1))
                | first # others \<Rightarrow>
                    (let first1 = (case bodyNewStart body of
                                     Some t \<Rightarrow> first\<lparr>sessionStartDateTime := t\<rparr>
                                   | None \<Rightarrow> first);
                         first2 = (case bodyNewEnd body of
                                     Some t \<Rightarrow> first1\<lparr>sessionEndDateTime := t\<rparr>
                                   | None \<Rightarrow> first1);
                         series2 = series1\<lparr>preGeneratedClassSessions := first2 # others\<rparr>
                     in case saveValidated st series2 of
                          None \<Rightarrow> (UpdateError, st)
                        | Some st1 \<Rightarrow> (Updated series2, st1)))
          else
            (case find (\<lambda>x. sessionId x = sessId) (preGeneratedClassSessions series) of
               None \<Rightarrow> (NotFound ''Session instance not found'', st)
             | Some session \<Rightarrow>
                 (let finalStart = orElse (bodyNewStart body) (sessionStartDateTime session);
                      finalEnd = orElse (bodyNewEnd body) (sessionEndDateTime session)
                  in case findDetailedSchedulingConflict st
                            [\<lparr>sessionStartDateTime = finalStart, sessionEndDateTime = finalEnd\<rparr>]
                            (orElse (bodyAssignedRoom body) (assignedRoom series))
                            (orElse (bodyAssignedInstructor body) (assignedInstructor series))
                            (Some seriesId) of
                       Inl err \<Rightarrow> (UpdateError, st)
                     | Inr (Some conflict) \<Rightarrow> (Conflict conflict, st)
                     | Inr None \<Rightarrow>
                         (case createStandalone st
                                 (orElseString (bodyClassTitle body) (classTitle series))
                                 (orElse (bodyAssignedInstructor body) (assignedInstructor series))
                                 (orElse (bodyAssignedRoom body) (assignedRoom series))
                                 finalStart finalEnd of
                            None \<Rightarrow> (UpdateError, st)
                          | Some (newStandaloneClass, st1) \<Rightarrow>
                              (let series1 = series
                                     \<lparr>exceptions := exceptions series @
                                        [\<lparr>originalStart = sessionStartDateTime session,
                                          status = cancelled,
                                          reason = bodyReason body,
                                          newStart = None,
                                          newEnd = None\<rparr>]\<rparr>;
                                   series2 = series1
                                     \<lparr>preGeneratedClassSessions :=
                                        filter (\<lambda>x. sessionId x \<noteq> sessId)
                                          (preGeneratedClassSessions series1)\<rparr>
                               in case saveValidated st1 series2 of
                                    None \<Rightarrow> (UpdateError, st1)
                                  | Some st2 \<Rightarrow>
                                      (DetachedSuccessfully newStandaloneClass (docId series2),
                                       st2))))))"

section \<open>Sample requests\<close>

definition slot0900 :: TimeSlot where
  "slot0900 = \<lparr>startTime24h = (Some 9, Some 0), endTime24h = (Some 10, Some 0)\<rparr>"


definition sampleRequest :: "RecurrenceStrategy \<Rightarrow> jsdate option \<Rightarrow> jsdate option \<Rightarrow> TimeSlot list \<Rightarrow> payload" where
  "sampleRequest kind start end slots =
     \<lparr>seriesStartDate = start, seriesEndDate = end, recurrenceType = kind,
      dailyTimeSlots = slots, selectedWeekdays = [], selectedMonthDays = [],
      repeatEveryXWeeksOrDays = None, manuallyChosenDates = []\<rparr>"


definition editMoving :: "instant \<Rightarrow> instant \<Rightarrow> instant \<Rightarrow> IInstanceException" where
  "editMoving anchor ns ne =
     \<lparr>originalStart = anchor, status = modified, reason = ''moved'',
      newStart = Some ns, newEnd = Some ne\<rparr>"

definition cancellation :: "instant \<Rightarrow> IInstanceException" where
  "cancellation anchor =
     \<lparr>originalStart = anchor, status = cancelled, reason = ''cancelled'',
      newStart = None, newEnd = None\<rparr>"

definition sampleDoc ::
    "oid \<Rightarrow> string \<Rightarrow> oid \<Rightarrow> oid \<Rightarrow> RecurrenceStrategy \<Rightarrow> IIndividualClassSession list \<Rightarrow> IClassSchedule" where
  "sampleDoc i title instructor room kind sessions =
     \<lparr>docId = i, classTitle = title, assignedInstructor = instructor, assignedRoom = room,
      rule = sampleRequest kind (Some (Some 86400000)) (Some (Some 864000000)) [slot0900],
      preGeneratedClassSessions = sessions, exceptions = []\<rparr>"

definition storedSession :: "instant \<Rightarrow> instant \<Rightarrow> oid \<Rightarrow> IIndividualClassSession" where
  "storedSession s e i = \<lparr>sessionStartDateTime = s, sessionEndDateTime = e, sessionId = i\<rparr>"

definition sampleStore :: "IClassSchedule list \<Rightarrow> store" where
  "sampleStore docs =
     \<lparr>classes = docs,
      instructorNames = [20 \<mapsto> ''Dr X'', 21 \<mapsto> ''Dr Y''],
      roomNames = [10 \<mapsto> ''Room A'', 11 \<mapsto> ''Room B''],
      nextId = 100\<rparr>"

definition emptyBody :: instanceBody where
  "emptyBody = \<lparr>bodyNewStart = None, bodyNewEnd = None, bodyReason = ''Detached from series'',
                bodyClassTitle = None, bodyAssignedInstructor = None, bodyAssignedRoom = None\<rparr>"


section \<open>The generator emits the slots on the included days\<close>

lemma pushSlotSessions_append:
  "pushSlotSessions e b slots acc = acc @ pushSlotSessions e b slots []"
proof (induction slots arbitrary: acc)
  case Nil
  show ?case by simp
next
  case (Cons slot rest)
  have a: "pushSlotSessions e b rest (acc @ [x]) = acc @ [x] @ pushSlotSessions e b rest []" for x
    using Cons.IH [of "acc @ [x]"] by simp
  have b: "pushSlotSessions e b rest [x] = [x] @ pushSlotSessions e b rest []" for x
    using Cons.IH [of "[x]"] by simp
  show ?case
    using Cons.IH [of acc] a b by (simp split: sum.splits)
qed

lemma manualDatesLoop_eq:
  "manualDatesLoop e slots ds acc = acc @ sessionsOnDays e slots (validDates ds)"
proof (induction ds arbitrary: acc)
  case Nil
  show ?case by (simp add: sessionsOnDays_def validDates_def)
next
  case (Cons d ds)
  show ?case
  proof (cases d)
    case None
    then show ?thesis using Cons.IH [of acc] by (simp add: sessionsOnDays_def validDates_def)
  next
    case (Some t)
    then show ?thesis
      using Cons.IH [of "pushSlotSessions e t slots acc"] pushSlotSessions_append [of e t slots acc]
      by (simp add: sessionsOnDays_def validDates_def)
  qed
qed

lemma customPatternLoop_eq:
  "customPatternLoop p e s c b acc =
     acc @ sessionsOnDays e (dailyTimeSlots p) (filter (customMatches p s) (daysFrom c b))"
proof (induction p e s c b acc rule: customPatternLoop.induct)
  case (1 p e s c b acc)
  show ?case
  proof (cases "c \<le> b")
    case False
    then show ?thesis
      by (subst customPatternLoop.simps, subst daysFrom.simps) (simp add: sessionsOnDays_def)
  next
    case True
    have d: "daysFrom c b = c # daysFrom (addDays c 1) b"
      using True by (subst daysFrom.simps) simp
    show ?thesis
      using True "1.IH" [OF True] pushSlotSessions_append [of e c "dailyTimeSlots p" acc]
      by (subst customPatternLoop.simps) (simp add: d sessionsOnDays_def)
  qed
qed

lemma standardLoop_eq:
  "standardLoop p e s c b acc =
     acc @ sessionsOnDays e (dailyTimeSlots p)
             (filter (shouldIncludeThisDay p s)
                (if recurrenceType p = SINGLE_INSTANCE then (if c \<le> b then [c] else [])
                 else daysFrom c b))"
proof (induction p e s c b acc rule: standardLoop.induct)
  case (1 p e s c b acc)
  show ?case
  proof (cases "c \<le> b")
    case False
    then show ?thesis
      by (subst standardLoop.simps, subst daysFrom.simps) (simp add: sessionsOnDays_def)
  next
    case True
    have d: "daysFrom c b = c # daysFrom (addDays c 1) b"
      using True by (subst daysFrom.simps) simp
    show ?thesis
    proof (cases "recurrenceType p = SINGLE_INSTANCE")
      case True
      then show ?thesis
        using \<open>c \<le> b\<close> pushSlotSessions_append [of e c "dailyTimeSlots p" acc]
        by (subst standardLoop.simps) (simp add: sessionsOnDays_def)
    next
      case False
      then show ?thesis
        using \<open>c \<le> b\<close> "1.IH" [OF \<open>c \<le> b\<close> refl False]
          pushSlotSessions_append [of e c "dailyTimeSlots p" acc]
        by (subst standardLoop.simps) (simp add: d sessionsOnDays_def Let_def)
    qed
  qed
qed

lemma sessionsOnDays_Nil [simp]: "sessionsOnDays e slots [] = []"
  by (simp add: sessionsOnDays_def)

lemma generate_decomposition:
  "generateAllClassSessions p now =
     (case includedDays p of
        Inl err \<Rightarrow> Inl err
      | Inr days \<Rightarrow>
          (let generated = sessionsOnDays (addMinutes now 30) (dailyTimeSlots p) days
           in if generated = [] then Inl (NoFutureSessions (safetyNetOf p)) else Inr generated))"
  unfolding generateAllClassSessions_def includedDays_def safetyNetOf_def
  by (simp add: manualDatesLoop_eq customPatternLoop_eq standardLoop_eq Let_def newDate_def
      split: option.splits)

section \<open>Calendar facts\<close>

lemma yearOfDay_range: "yearOfDay y n = (y', r) \<Longrightarrow> 0 \<le> r \<and> r < daysInYear y'"
proof (induction y n rule: yearOfDay.induct)
  case (1 y n)
  show ?case
  proof (cases "n < 0")
    case True
    then show ?thesis using 1 by (subst (asm) (3) yearOfDay.simps) simp
  next
    case False
    then show ?thesis using 1 by (subst (asm) (3) yearOfDay.simps) (auto split: if_splits)
  qed
qed

lemma daysInYear_pos: "0 < daysInYear y"
  by (simp add: daysInYear_def)

lemma yearOfDay_base: "yearOfDay (y - 1) (n + daysInYear (y - 1)) = yearOfDay y n"
proof (cases "n < 0")
  case True
  then show ?thesis by (subst (2) yearOfDay.simps) simp
next
  case False
  then show ?thesis using daysInYear_pos [of "y - 1"]
    by (subst yearOfDay.simps) simp
qed

lemma yearOfDay_shift:
  "yearOfDay y0 n = (y, r) \<Longrightarrow> yearOfDay y0 (n + k) = yearOfDay y (r + k)"
proof (induction y0 n arbitrary: k rule: yearOfDay.induct)
  case (1 y0 n)
  show ?case
  proof (cases "n < 0")
    case True
    then have "yearOfDay (y0 - 1) (n + daysInYear (y0 - 1)) = (y, r)"
      using "1.prems" by (subst (asm) yearOfDay.simps) simp
    then have "yearOfDay (y0 - 1) (n + daysInYear (y0 - 1) + k) = yearOfDay y (r + k)"
      using "1.IH"(1) [OF True] by simp
    then show ?thesis using yearOfDay_base [of y0 "n + k"] by (simp add: algebra_simps)
  next
    case False
    show ?thesis
    proof (cases "daysInYear y0 \<le> n")
      case True
      then have "yearOfDay (y0 + 1) (n - daysInYear y0) = (y, r)"
        using "1.prems" False by (subst (asm) yearOfDay.simps) simp
      then have "yearOfDay (y0 + 1) (n - daysInYear y0 + k) = yearOfDay y (r + k)"
        using "1.IH"(2) [OF False True] by simp
      then show ?thesis using yearOfDay_base [of "y0 + 1" "n - daysInYear y0 + k"]
        by (simp add: algebra_simps)
    next
      case inYear: False
      then have "y = y0 \<and> r = n" using "1.prems" False by (subst (asm) yearOfDay.simps) simp
      then show ?thesis by simp
    qed
  qed
qed

lemma yearOfDay_in_range: "0 \<le> r \<Longrightarrow> r < daysInYear y \<Longrightarrow> yearOfDay y r = (y, r)"
  by (subst yearOfDay.simps) simp

lemma monthOfDay_general:
  "\<forall>l \<in> set ls. 0 < l \<Longrightarrow> 0 \<le> r \<Longrightarrow> r < sum_list ls \<Longrightarrow> monthOfDay ls m0 r = (m, d) \<Longrightarrow>
     m0 \<le> m \<and> m < m0 + int (length ls) \<and> 1 \<le> d \<and> d \<le> ls ! nat (m - m0) \<and>
     0 \<le> r - d + ls ! nat (m - m0) \<and> r - d + ls ! nat (m - m0) < sum_list ls \<and>
     monthOfDay ls m0 (r - d + ls ! nat (m - m0)) = (m, ls ! nat (m - m0))"
proof (induction ls arbitrary: m0 r)
  case Nil
  then show ?case by simp
next
  case (Cons len rest)
  show ?case
  proof (cases "r < len")
    case True
    then have "m = m0" "d = r + 1" using Cons.prems(4) by simp_all
    then show ?thesis using True Cons.prems(1,2,3) sum_list_nonneg [of rest]
      by (simp add: order_less_imp_le)
  next
    case False
    then have rec: "monthOfDay rest (m0 + 1) (r - len) = (m, d)"
      using Cons.prems(4) by simp
    have pos: "\<forall>l \<in> set rest. 0 < l" using Cons.prems(1) by simp
    have r0: "0 \<le> r - len" using False by simp
    have r1: "r - len < sum_list rest" using Cons.prems(3) by simp
    note ih = Cons.IH [OF pos r0 r1 rec]
    have idx: "nat (m - m0) = Suc (nat (m - (m0 + 1)))" using ih by arith
    have sub: "r - d + rest ! nat (m - (m0 + 1)) - len = r - len - d + rest ! nat (m - (m0 + 1))"
      by simp
    have len0: "0 < len" using Cons.prems(1) by simp
    show ?thesis using ih len0 by (simp add: idx sub)
  qed
qed

lemma monthLengths_props:
  "sum_list (monthLengths y) = daysInYear y" "\<forall>l \<in> set (monthLengths y). 0 < l"
  "length (monthLengths y) = 12"
  by (simp_all add: monthLengths_def daysInYear_def)

lemma monthOfDay_year:
  assumes "0 \<le> r" "r < daysInYear y" "monthOfDay (monthLengths y) 0 r = (m, d)"
  shows "0 \<le> m \<and> m < 12 \<and> 1 \<le> d \<and> d \<le> daysInMonth y m \<and>
         0 \<le> r - d + daysInMonth y m \<and> r - d + daysInMonth y m < daysInYear y \<and>
         monthOfDay (monthLengths y) 0 (r - d + daysInMonth y m) = (m, daysInMonth y m)"
proof -
  have r1: "r < sum_list (monthLengths y)" using assms(2) by (simp add: monthLengths_props)
  note g = monthOfDay_general [OF monthLengths_props(2) assms(1) r1 assms(3)]
  have m: "0 \<le> m \<and> m < 12" using g by (simp add: monthLengths_props)
  then have dim: "daysInMonth y m = monthLengths y ! nat m" by (simp add: daysInMonth_def)
  show ?thesis using g m by (simp add: dim monthLengths_props)
qed

lemma dayNumber_mult [simp]: "dayNumber (n * msPerDay) = n"
  by (simp add: dayNumber_def msPerDay_def)

lemma civil_fields:
  "0 \<le> getMonth t \<and> getMonth t < 12 \<and> 1 \<le> getDate t \<and>
   getDate t \<le> daysInMonth (getFullYear t) (getMonth t)"
proof -
  obtain y r where yr: "yearOfDay 1970 (dayNumber t) = (y, r)" by (cases "yearOfDay 1970 (dayNumber t)")
  obtain m d where md: "monthOfDay (monthLengths y) 0 r = (m, d)" by (cases "monthOfDay (monthLengths y) 0 r")
  have rng: "0 \<le> r \<and> r < daysInYear y" using yearOfDay_range [OF yr] .
  show ?thesis using monthOfDay_year [of r y m d] rng md yr
    by (simp add: getMonth_def getDate_def getFullYear_def dayOfYear_def)
qed

lemma getDate_lastDayOfMonth:
  "getDate (lastDayOfMonth t) = daysInMonth (getFullYear t) (getMonth t)"
proof -
  obtain y r where yr: "yearOfDay 1970 (dayNumber t) = (y, r)" by (cases "yearOfDay 1970 (dayNumber t)")
  obtain m d where md: "monthOfDay (monthLengths y) 0 r = (m, d)" by (cases "monthOfDay (monthLengths y) 0 r")
  have rng: "0 \<le> r \<and> r < daysInYear y" using yearOfDay_range [OF yr] .
  note mo = monthOfDay_year [of r y m d]
  have f: "getFullYear t = y" "getMonth t = m" "getDate t = d"
    using yr md by (simp_all add: getMonth_def getDate_def getFullYear_def dayOfYear_def)
  define k where "k = daysInMonth y m - d"
  have dn: "dayNumber (lastDayOfMonth t) = dayNumber t + k"
    by (simp add: lastDayOfMonth_def f k_def)
  have "yearOfDay 1970 (dayNumber t + k) = yearOfDay y (r + k)"
    using yearOfDay_shift [OF yr] .
  also have "\<dots> = (y, r + k)"
    using mo rng md by (intro yearOfDay_in_range) (simp_all add: k_def)
  finally have yr': "yearOfDay 1970 (dayNumber (lastDayOfMonth t)) = (y, r + k)"
    by (simp add: dn)
  have "monthOfDay (monthLengths y) 0 (r + k) = (m, daysInMonth y m)"
    using mo rng md by (simp add: k_def algebra_simps)
  then have "getDate (lastDayOfMonth t) = daysInMonth y m"
    using yr' by (simp add: getDate_def getFullYear_def dayOfYear_def)
  then show ?thesis by (simp add: f)
qed

lemma isLastDayOfMonth_iff:
  "isLastDayOfMonth t \<longleftrightarrow> getDate t = daysInMonth (getFullYear t) (getMonth t)"
  by (auto simp: isLastDayOfMonth_def endOfDay_def endOfMonth_def startOfDay_def
      lastDayOfMonth_def msPerDay_def)

section \<open>Facts about slots and sessions\<close>

lemma pushSlotSessions_set:
  "set (pushSlotSessions e b slots []) =
     {s. \<exists>slot \<in> set slots.
           createValidClassSessionFromDateAndTimes b (startTime24h slot) (endTime24h slot) = Inr s \<and>
           e \<le> sessionStartDateTime s}"
proof (induction slots)
  case Nil
  show ?case by simp
next
  case (Cons slot rest)
  have one: "pushSlotSessions e b rest [x] = x # pushSlotSessions e b rest []" for x
    using pushSlotSessions_append [of e b rest "[x]"] by simp
  show ?case
  proof (cases "createValidClassSessionFromDateAndTimes b (startTime24h slot) (endTime24h slot)")
    case (Inl err)
    then show ?thesis using Cons.IH by auto
  next
    case (Inr s0)
    then show ?thesis using Cons.IH one by auto
  qed
qed

lemma sessionsOnDays_set:
  "set (sessionsOnDays e slots days) =
     {s. \<exists>d \<in> set days. \<exists>slot \<in> set slots.
           createValidClassSessionFromDateAndTimes d (startTime24h slot) (endTime24h slot) = Inr s \<and>
           e \<le> sessionStartDateTime s}"
  by (auto simp: sessionsOnDays_def pushSlotSessions_set)





lemma matches_slots [simp]:
  "customMatches (p\<lparr>dailyTimeSlots := A\<rparr>) = customMatches p"
  "shouldIncludeThisDay (p\<lparr>dailyTimeSlots := A\<rparr>) = shouldIncludeThisDay p"
  by (auto simp: fun_eq_iff customMatches_def shouldIncludeThisDay_def intervalOf_def)


lemma daysFrom_empty: "b < c \<Longrightarrow> daysFrom c b = []"
  by (subst daysFrom.simps) simp

lemma daysFrom_set:
  "d \<in> set (daysFrom c b) \<longleftrightarrow> (\<exists>k::nat. d = c + int k * msPerDay) \<and> d \<le> b"
proof (induction c b rule: daysFrom.induct)
  case (1 c b)
  show ?case
  proof (cases "c \<le> b")
    case False
    have "\<not> (c + int k * msPerDay \<le> b)" for k
      using False by (simp add: msPerDay_def)
    then show ?thesis using False by (subst daysFrom.simps) auto
  next
    case True
    have "(\<exists>k::nat. d = c + int k * msPerDay) \<longleftrightarrow>
          d = c \<or> (\<exists>k::nat. d = addDays c 1 + int k * msPerDay)"
    proof
      assume "\<exists>k::nat. d = c + int k * msPerDay"
      then obtain k :: nat where k: "d = c + int k * msPerDay" by blast
      show "d = c \<or> (\<exists>k::nat. d = addDays c 1 + int k * msPerDay)"
      proof (cases k)
        case 0
        then show ?thesis using k by simp
      next
        case (Suc j)
        then have "d = addDays c 1 + int j * msPerDay"
          using k by (simp add: addDays_def algebra_simps)
        then show ?thesis by blast
      qed
    next
      assume "d = c \<or> (\<exists>k::nat. d = addDays c 1 + int k * msPerDay)"
      then show "\<exists>k::nat. d = c + int k * msPerDay"
      proof
        assume "d = c"
        then have "d = c + int 0 * msPerDay" by simp
        then show ?thesis by blast
      next
        assume "\<exists>k::nat. d = addDays c 1 + int k * msPerDay"
        then obtain j :: nat where "d = addDays c 1 + int j * msPerDay" by blast
        then have "d = c + int (Suc j) * msPerDay" by (simp add: addDays_def algebra_simps)
        then show ?thesis by blast
      qed
    qed
    then show ?thesis using True "1.IH" [OF True]
      by (subst daysFrom.simps) auto
  qed
qed


section \<open>Facts about reconciliation and the store\<close>

lemma filterCancelled_Inr:
  "exs = [] \<or> (\<forall>x \<in> set xs. mergedStart x \<noteq> None) \<Longrightarrow>
     filterCancelled exs xs =
       Inr (filter (\<lambda>t. \<not> (\<exists>ex \<in> set exs. Some (originalStart ex) = mergedStart t \<and>
                                  status ex = cancelled)) xs)"
proof (induction xs)
  case Nil
  show ?case by simp
next
  case (Cons x xs)
  have ih: "filterCancelled exs xs =
       Inr (filter (\<lambda>t. \<not> (\<exists>ex \<in> set exs. Some (originalStart ex) = mergedStart t \<and>
                                  status ex = cancelled)) xs)"
    using Cons by auto
  show ?case
  proof (cases "exs = []")
    case True
    then show ?thesis using ih by (simp add: isCancelledAt_def)
  next
    case False
    then obtain t where t: "mergedStart x = Some t" using Cons.prems by auto
    show ?thesis using False t ih by (auto simp: isCancelledAt_def)
  qed
qed

lemma filterCancelled_Inl:
  "exs \<noteq> [] \<Longrightarrow> \<exists>x \<in> set xs. mergedStart x = None \<Longrightarrow> filterCancelled exs xs = Inl TypeError"
proof (induction xs)
  case Nil
  then show ?case by simp
next
  case (Cons x xs)
  show ?case
  proof (cases "mergedStart x")
    case None
    then show ?thesis using Cons.prems(1) by (simp add: isCancelledAt_def)
  next
    case (Some t)
    then have "\<exists>y \<in> set xs. mergedStart y = None" using Cons.prems(2) by auto
    then have "filterCancelled exs xs = Inl TypeError" using Cons.IH Cons.prems(1) by simp
    then show ?thesis using Some Cons.prems(1) by (simp add: isCancelledAt_def)
  qed
qed

lemma find_docId: "find (\<lambda>d. docId d = i) xs = Some d \<Longrightarrow> docId d = i \<and> d \<in> set xs"
  by (auto simp: find_Some_iff)

lemma find_map_replace:
  "find (\<lambda>d. docId d = i) (map (\<lambda>d. if docId d = docId doc then doc else d) xs) =
     map_option (\<lambda>d. if docId d = docId doc then doc else d) (find (\<lambda>d. docId d = i) xs)"
  by (induction xs) auto

lemma findById_save:
  "findById (save st doc) i =
     map_option (\<lambda>d. if docId d = docId doc then doc else d) (findById st i)"
  by (simp add: findById_def save_def find_map_replace)

lemma find_append_fresh:
  "\<forall>d \<in> set xs. \<not> P d \<Longrightarrow> P y \<Longrightarrow> find P (xs @ [y]) = Some y"
  by (induction xs) auto

lemma find_append_old:
  "find P xs = Some d \<Longrightarrow> find P (xs @ ys) = Some d"
  by (induction xs) (auto split: if_splits)

lemma trim_decomposition:
  "\<exists>l r. s = l @ trim s @ r \<and> (\<forall>c \<in> set l. isWhiteSpace c) \<and> (\<forall>c \<in> set r. isWhiteSpace c) \<and>
         (trim s \<noteq> [] \<longrightarrow> \<not> isWhiteSpace (hd (trim s)) \<and> \<not> isWhiteSpace (last (trim s)))"
proof -
  let ?l = "takeWhile isWhiteSpace s"
  let ?d = "dropWhile isWhiteSpace s"
  let ?r = "rev (takeWhile isWhiteSpace (rev ?d))"
  have t: "trim s = rev (dropWhile isWhiteSpace (rev ?d))" by (simp add: trim_def)
  have "?d = rev (dropWhile isWhiteSpace (rev ?d)) @ rev (takeWhile isWhiteSpace (rev ?d))"
    by (metis rev_append rev_rev_ident takeWhile_dropWhile_id)
  then have d: "?d = trim s @ ?r" using t by simp
  have s: "s = ?l @ trim s @ ?r" using d by (metis takeWhile_dropWhile_id)
  have wl: "\<forall>c \<in> set ?l. isWhiteSpace c" by (auto dest: set_takeWhileD)
  have wr: "\<forall>c \<in> set ?r. isWhiteSpace c" by (auto dest: set_takeWhileD)
  have ends: "\<not> isWhiteSpace (hd (trim s)) \<and> \<not> isWhiteSpace (last (trim s))" if ne: "trim s \<noteq> []"
  proof -
    have dne: "?d \<noteq> []" using d ne by (metis append_is_Nil_conv)
    have hd: "hd (trim s) = hd ?d" using d ne by (metis hd_append2)
    have "\<not> isWhiteSpace (hd ?d)" using dne by (rule hd_dropWhile)
    then have h: "\<not> isWhiteSpace (hd (trim s))" using hd by metis
    have ne2: "dropWhile isWhiteSpace (rev ?d) \<noteq> []" using ne t by (metis rev_is_Nil_conv)
    have "last (trim s) = hd (dropWhile isWhiteSpace (rev ?d))"
      using ne2 t by (metis last_rev)
    moreover have "\<not> isWhiteSpace (hd (dropWhile isWhiteSpace (rev ?d)))"
      using ne2 by (rule hd_dropWhile)
    ultimately have "\<not> isWhiteSpace (last (trim s))" by metis
    then show ?thesis using h by blast
  qed
  show ?thesis using s wl wr ends by blast
qed

section \<open>Verified properties\<close>

subsection \<open>The overlap test\<close>

text \<open>
  C4. The overlap predicate of the conflict detector holds for A and B exactly when
  A.start < B.end and A.end > B.start; the query form and the re-scan form agree, the
  predicate is symmetric, and back-to-back intervals (A.end = B.start) never overlap.
\<close>

theorem overlap_predicate:
  "(elemMatchOverlap A B \<longleftrightarrow>
      sessionStartDateTime A < sessionEndDateTime B \<and>
      sessionEndDateTime A > sessionStartDateTime B) \<and>
   (rescanOverlap B A \<longleftrightarrow> elemMatchOverlap A B) \<and>
   (elemMatchOverlap A B \<longleftrightarrow> elemMatchOverlap B A) \<and>
   (rescanOverlap A B \<longleftrightarrow> rescanOverlap B A) \<and>
   (sessionEndDateTime A = sessionStartDateTime B \<longrightarrow>
      \<not> elemMatchOverlap A B \<and> \<not> elemMatchOverlap B A \<and>
      \<not> rescanOverlap A B \<and> \<not> rescanOverlap B A)"
  unfolding elemMatchOverlap_def rescanOverlap_def by auto

theorem overlap_predicate_witness:
  "sessionEndDateTime \<lparr>sessionStartDateTime = 0, sessionEndDateTime = 3600000\<rparr> =
     sessionStartDateTime \<lparr>sessionStartDateTime = 3600000, sessionEndDateTime = 7200000\<rparr> \<and>
   \<not> elemMatchOverlap \<lparr>sessionStartDateTime = 0, sessionEndDateTime = 3600000\<rparr>
       \<lparr>sessionStartDateTime = 3600000, sessionEndDateTime = 7200000\<rparr> \<and>
   elemMatchOverlap \<lparr>sessionStartDateTime = 0, sessionEndDateTime = 3600000\<rparr>
       \<lparr>sessionStartDateTime = 1800000, sessionEndDateTime = 5400000\<rparr>"
  using overlap_predicate
    [of "\<lparr>sessionStartDateTime = 0, sessionEndDateTime = 3600000\<rparr>"
        "\<lparr>sessionStartDateTime = 3600000, sessionEndDateTime = 7200000\<rparr>"]
    overlap_predicate
    [of "\<lparr>sessionStartDateTime = 0, sessionEndDateTime = 3600000\<rparr>"
        "\<lparr>sessionStartDateTime = 1800000, sessionEndDateTime = 5400000\<rparr>"]
  by simp

subsection \<open>Reconciliation of exceptions\<close>

text \<open>
  C1, as stated: a generated session whose original start is the anchor of both a
  modified and a cancelled exception is absent from the reconciled sequence, even when
  the modification changed the start. The filter reads the start after the substitution,
  so the moved session below is kept.
\<close>

theorem reconcile_counterexample:
  "reconcileExceptions
     [editMoving 118800000 126000000 129600000, cancellation 118800000]
     [\<lparr>sessionStartDateTime = 118800000, sessionEndDateTime = 122400000\<rparr>] =
   Inr [\<lparr>mergedStart = Some 126000000, mergedEnd = Some 129600000\<rparr>]"
  by code_simp

text \<open>
  C1, amended. Reconciliation substitutes the modified exceptions first and filters the
  cancelled ones second, on the start a session has after the substitution: the result
  is the substituted sessions without those whose start is the anchor of a cancelled
  exception, and the only error is the one raised when a matched modified exception has
  no new start. For a session whose original start anchors both a modified and a
  cancelled exception, the session is absent when the modification kept the start, and
  it is kept at its new time when no cancelled exception is anchored there.
\<close>

theorem reconcile_cancelled_after_modified:
  fixes exs :: "IInstanceException list" and newSessions :: "ClassSession list"
  defines "substituted \<equiv>
     (\<lambda>sess. case find (\<lambda>ex. originalStart ex = sessionStartDateTime sess \<and>
                               status ex = modified) exs of
               None \<Rightarrow> \<lparr>mergedStart = Some (sessionStartDateTime sess),
                         mergedEnd = Some (sessionEndDateTime sess)\<rparr>
             | Some m \<Rightarrow> \<lparr>mergedStart = newStart m, mergedEnd = newEnd m\<rparr>)"
    and "cancelledAt \<equiv>
     (\<lambda>t. \<exists>ex \<in> set exs. Some (originalStart ex) = mergedStart t \<and> status ex = cancelled)"
  shows "reconcileExceptions exs newSessions =
           (if \<exists>sess \<in> set newSessions. mergedStart (substituted sess) = None
            then Inl TypeError
            else Inr (filter (\<lambda>t. \<not> cancelledAt t) (map substituted newSessions))) \<and>
         (\<forall>sess \<in> set newSessions. \<forall>m c ns out.
            find (\<lambda>ex. originalStart ex = sessionStartDateTime sess \<and> status ex = modified) exs
              = Some m \<and>
            newStart m = Some ns \<and>
            c \<in> set exs \<and> status c = cancelled \<and> originalStart c = sessionStartDateTime sess \<and>
            reconcileExceptions exs newSessions = Inr out \<longrightarrow>
              (ns = sessionStartDateTime sess \<longrightarrow>
                 \<lparr>mergedStart = Some ns, mergedEnd = newEnd m\<rparr> \<notin> set out) \<and>
              ((\<forall>ex \<in> set exs. status ex = cancelled \<longrightarrow> originalStart ex \<noteq> ns) \<longrightarrow>
                 \<lparr>mergedStart = Some ns, mergedEnd = newEnd m\<rparr> \<in> set out))"
proof -
  have sub: "applyManualEdit exs = substituted"
    by (auto simp: fun_eq_iff applyManualEdit_def substituted_def split: option.splits)
  have main: "reconcileExceptions exs newSessions =
           (if \<exists>sess \<in> set newSessions. mergedStart (substituted sess) = None
            then Inl TypeError
            else Inr (filter (\<lambda>t. \<not> cancelledAt t) (map substituted newSessions)))"
  proof (cases "\<exists>sess \<in> set newSessions. mergedStart (substituted sess) = None")
    case True
    then obtain sess where s: "sess \<in> set newSessions" "mergedStart (substituted sess) = None"
      by blast
    have "exs \<noteq> []" using s(2) by (auto simp: substituted_def split: option.splits)
    moreover have "\<exists>x \<in> set (map substituted newSessions). mergedStart x = None"
      using s by auto
    ultimately have "filterCancelled exs (map substituted newSessions) = Inl TypeError"
      by (rule filterCancelled_Inl)
    then show ?thesis using True by (simp add: reconcileExceptions_def sub)
  next
    case False
    then have "\<forall>x \<in> set (map substituted newSessions). mergedStart x \<noteq> None" by auto
    then have "filterCancelled exs (map substituted newSessions) =
       Inr (filter (\<lambda>t. \<not> cancelledAt t) (map substituted newSessions))"
      unfolding cancelledAt_def by (intro filterCancelled_Inr) simp
    then show ?thesis using False by (simp add: reconcileExceptions_def sub)
  qed
  have both: "(ns = sessionStartDateTime sess \<longrightarrow>
                 \<lparr>mergedStart = Some ns, mergedEnd = newEnd m\<rparr> \<notin> set out) \<and>
              ((\<forall>ex \<in> set exs. status ex = cancelled \<longrightarrow> originalStart ex \<noteq> ns) \<longrightarrow>
                 \<lparr>mergedStart = Some ns, mergedEnd = newEnd m\<rparr> \<in> set out)"
    if sess: "sess \<in> set newSessions"
      and m: "find (\<lambda>ex. originalStart ex = sessionStartDateTime sess \<and> status ex = modified) exs
              = Some m" "newStart m = Some ns"
      and c: "c \<in> set exs" "status c = cancelled" "originalStart c = sessionStartDateTime sess"
      and out: "reconcileExceptions exs newSessions = Inr out"
    for sess m c ns out
  proof -
    let ?t = "\<lparr>mergedStart = Some ns, mergedEnd = newEnd m\<rparr>"
    have t: "substituted sess = ?t" using m by (simp add: substituted_def)
    have o: "out = filter (\<lambda>t. \<not> cancelledAt t) (map substituted newSessions)"
      using out main by (simp split: if_splits)
    have mem: "?t \<in> set out \<longleftrightarrow> \<not> cancelledAt ?t"
      using sess t by (force simp: o)
    have c1: "ns = sessionStartDateTime sess \<Longrightarrow> cancelledAt ?t"
      using c by (auto simp: cancelledAt_def)
    have c2: "\<forall>ex \<in> set exs. status ex = cancelled \<longrightarrow> originalStart ex \<noteq> ns \<Longrightarrow>
              \<not> cancelledAt ?t"
      by (auto simp: cancelledAt_def)
    show ?thesis using mem c1 c2 by blast
  qed
  show ?thesis using main both by blast
qed

theorem reconcile_cancelled_after_modified_witness:
  "reconcileExceptions
     [editMoving 118800000 126000000 129600000, cancellation 118800000]
     [\<lparr>sessionStartDateTime = 118800000, sessionEndDateTime = 122400000\<rparr>] =
   Inr [\<lparr>mergedStart = Some 126000000, mergedEnd = Some 129600000\<rparr>] \<and>
   reconcileExceptions
     [editMoving 118800000 118800000 129600000, cancellation 118800000]
     [\<lparr>sessionStartDateTime = 118800000, sessionEndDateTime = 122400000\<rparr>] = Inr [] \<and>
   reconcileExceptions
     [editMoving 118800000 126000000 129600000, cancellation 126000000]
     [\<lparr>sessionStartDateTime = 118800000, sessionEndDateTime = 122400000\<rparr>] = Inr [] \<and>
   reconcileExceptions
     [(editMoving 118800000 126000000 129600000)\<lparr>newEnd := None\<rparr>]
     [\<lparr>sessionStartDateTime = 118800000, sessionEndDateTime = 122400000\<rparr>,
      \<lparr>sessionStartDateTime = 205200000, sessionEndDateTime = 208800000\<rparr>] =
   Inr [\<lparr>mergedStart = Some 126000000, mergedEnd = None\<rparr>,
        \<lparr>mergedStart = Some 205200000, mergedEnd = Some 208800000\<rparr>] \<and>
   reconcileExceptions
     [(editMoving 118800000 126000000 129600000)\<lparr>newStart := None\<rparr>]
     [\<lparr>sessionStartDateTime = 118800000, sessionEndDateTime = 122400000\<rparr>] = Inl TypeError"
proof -
  let ?s = "\<lparr>sessionStartDateTime = 118800000, sessionEndDateTime = 122400000\<rparr>"
  note d = editMoving_def cancellation_def
  have a: "reconcileExceptions [editMoving 118800000 126000000 129600000, cancellation 118800000]
      [?s] = Inr [\<lparr>mergedStart = Some 126000000, mergedEnd = Some 129600000\<rparr>]"
    using conjunct1 [OF reconcile_cancelled_after_modified
        [of "[editMoving 118800000 126000000 129600000, cancellation 118800000]"
            "[?s]"]]
    by (simp add: d)
  have b: "reconcileExceptions [editMoving 118800000 118800000 129600000, cancellation 118800000]
      [?s] = Inr []"
    using conjunct1 [OF reconcile_cancelled_after_modified
        [of "[editMoving 118800000 118800000 129600000, cancellation 118800000]"
            "[?s]"]]
    by (simp add: d)
  have c: "reconcileExceptions [editMoving 118800000 126000000 129600000, cancellation 126000000]
      [?s] = Inr []"
    using conjunct1 [OF reconcile_cancelled_after_modified
        [of "[editMoving 118800000 126000000 129600000, cancellation 126000000]"
            "[?s]"]]
    by (simp add: d)
  have e: "reconcileExceptions [(editMoving 118800000 126000000 129600000)\<lparr>newEnd := None\<rparr>]
      [?s, \<lparr>sessionStartDateTime = 205200000, sessionEndDateTime = 208800000\<rparr>] =
      Inr [\<lparr>mergedStart = Some 126000000, mergedEnd = None\<rparr>,
           \<lparr>mergedStart = Some 205200000, mergedEnd = Some 208800000\<rparr>]"
    using conjunct1 [OF reconcile_cancelled_after_modified
        [of "[(editMoving 118800000 126000000 129600000)\<lparr>newEnd := None\<rparr>]"
            "[?s, \<lparr>sessionStartDateTime = 205200000, sessionEndDateTime = 208800000\<rparr>]"]]
    by (simp add: d)
  have f: "reconcileExceptions [(editMoving 118800000 126000000 129600000)\<lparr>newStart := None\<rparr>]
      [?s] = Inl TypeError"
    using conjunct1 [OF reconcile_cancelled_after_modified
        [of "[(editMoving 118800000 126000000 129600000)\<lparr>newStart := None\<rparr>]"
            "[?s]"]]
    by (simp add: d)
  show ?thesis using a b c e f by blast
qed

subsection \<open>Invalid time slots\<close>




subsection \<open>Monthly rules\<close>

text \<open>
  C3. For a monthly rule a day is included exactly when its day of the month is one of
  the selected month days, or it is the last day of its month and some selected month
  day exceeds the length of that month. With the single month day 31, a day of February
  (month 1, as \<open>getMonth\<close> counts from 0) is included exactly when it is the 28th of a
  common year or the 29th of a leap year.
  The sessions of the request are the slots emitted on the included days of the walk
  from the series start to the series end.
\<close>

theorem monthly_inclusion:
  assumes "recurrenceType p = SPECIFIC_MONTH_DAYS"
  shows "(shouldIncludeThisDay p start c \<longleftrightarrow>
            getDate c \<in> set (selectedMonthDays p) \<or>
            (getDate c = daysInMonth (getFullYear c) (getMonth c) \<and>
             (\<exists>d \<in> set (selectedMonthDays p). d > daysInMonth (getFullYear c) (getMonth c)))) \<and>
         (selectedMonthDays p = [31] \<and> getMonth c = 1 \<longrightarrow>
            (shouldIncludeThisDay p start c \<longleftrightarrow>
               getDate c = (if isLeapYear (getFullYear c) then 29 else 28))) \<and>
         (\<forall>s b. dailyTimeSlots p \<noteq> [] \<and> seriesStartDate p = Some (Some s) \<and>
                seriesEndDate p = Some (Some b) \<longrightarrow>
            generateAllClassSessions p now =
              (let generated = sessionsOnDays (addMinutes now 30) (dailyTimeSlots p)
                                 (filter (shouldIncludeThisDay p s) (daysFrom s b))
               in if generated = [] then Inl (NoFutureSessions FinalSafetyNet)
                  else Inr generated))"
proof -
  have inc: "shouldIncludeThisDay p start c \<longleftrightarrow>
            getDate c \<in> set (selectedMonthDays p) \<or>
            (getDate c = daysInMonth (getFullYear c) (getMonth c) \<and>
             (\<exists>d \<in> set (selectedMonthDays p). d > daysInMonth (getFullYear c) (getMonth c)))"
    using assms
    by (simp add: shouldIncludeThisDay_def isLastDayOfMonth_iff getDate_lastDayOfMonth)
  have feb: "shouldIncludeThisDay p start c \<longleftrightarrow>
               getDate c = (if isLeapYear (getFullYear c) then 29 else 28)"
    if m: "selectedMonthDays p = [31]" "getMonth c = 1"
  proof -
    have dim: "daysInMonth (getFullYear c) (getMonth c) =
                 (if isLeapYear (getFullYear c) then 29 else 28)"
      using m(2) by (simp add: daysInMonth_def monthLengths_def)
    have "getDate c \<le> daysInMonth (getFullYear c) (getMonth c)"
      using civil_fields [of c] by simp
    then have "getDate c \<noteq> 31" using dim by (simp split: if_splits)
    then show ?thesis unfolding inc using m(1) dim by (simp split: if_splits)
  qed
  have gen: "generateAllClassSessions p now =
              (let generated = sessionsOnDays (addMinutes now 30) (dailyTimeSlots p)
                                 (filter (shouldIncludeThisDay p s) (daysFrom s b))
               in if generated = [] then Inl (NoFutureSessions FinalSafetyNet)
                  else Inr generated)"
    if "dailyTimeSlots p \<noteq> []" "seriesStartDate p = Some (Some s)"
       "seriesEndDate p = Some (Some b)" for s b
    using that assms
    by (simp add: generate_decomposition includedDays_def newDate_def safetyNetOf_def Let_def)
  show ?thesis using inc feb gen by blast
qed

theorem monthly_inclusion_witness:
  "recurrenceType ((sampleRequest SPECIFIC_MONTH_DAYS (Some (Some 1772064000000)) (Some (Some 1772409600000))
       [slot0900])\<lparr>selectedMonthDays := [31]\<rparr>) = SPECIFIC_MONTH_DAYS \<and>
   getMonth 1772236800000 = 1 \<and> getDate 1772236800000 = 28 \<and>
   \<not> isLeapYear (getFullYear 1772236800000) \<and>
   shouldIncludeThisDay ((sampleRequest SPECIFIC_MONTH_DAYS (Some (Some 1772064000000))
       (Some (Some 1772409600000)) [slot0900])\<lparr>selectedMonthDays := [31]\<rparr>)
     1772064000000 1772236800000 \<and>
   getMonth 1835395200000 = 1 \<and> getDate 1835395200000 = 29 \<and>
   isLeapYear (getFullYear 1835395200000) \<and>
   shouldIncludeThisDay ((sampleRequest SPECIFIC_MONTH_DAYS (Some (Some 1772064000000))
       (Some (Some 1772409600000)) [slot0900])\<lparr>selectedMonthDays := [31]\<rparr>)
     1772064000000 1835395200000 \<and>
   generateAllClassSessions ((sampleRequest SPECIFIC_MONTH_DAYS (Some (Some 1772064000000))
       (Some (Some 1772409600000)) [slot0900])\<lparr>selectedMonthDays := [31]\<rparr>) 0 =
     Inr [\<lparr>sessionStartDateTime = 1772269200000, sessionEndDateTime = 1772272800000\<rparr>]"
proof -
  let ?p = "(sampleRequest SPECIFIC_MONTH_DAYS (Some (Some 1772064000000)) (Some (Some 1772409600000))
       [slot0900])\<lparr>selectedMonthDays := [31]\<rparr>"
  have k: "recurrenceType ?p = SPECIFIC_MONTH_DAYS" by (simp add: sampleRequest_def)
  have md: "selectedMonthDays ?p = [31]" by (simp add: sampleRequest_def)
  have a: "getMonth 1772236800000 = 1" "getDate 1772236800000 = 28"
    "\<not> isLeapYear (getFullYear 1772236800000)" by code_simp+
  have b: "getMonth 1835395200000 = 1" "getDate 1835395200000 = 29"
    "isLeapYear (getFullYear 1835395200000)" by code_simp+
  have sl: "dailyTimeSlots ?p \<noteq> []" "seriesStartDate ?p = Some (Some 1772064000000)"
    "seriesEndDate ?p = Some (Some 1772409600000)" by (simp_all add: sampleRequest_def)
  have g: "(let generated = sessionsOnDays (addMinutes 0 30) (dailyTimeSlots ?p)
                                 (filter (shouldIncludeThisDay ?p 1772064000000)
                                    (daysFrom 1772064000000 1772409600000))
               in if generated = [] then Inl (NoFutureSessions FinalSafetyNet)
                  else Inr generated) =
     Inr [\<lparr>sessionStartDateTime = 1772269200000, sessionEndDateTime = 1772272800000\<rparr>]"
    by code_simp
  note t1 = monthly_inclusion [OF k, of 1772064000000 1772236800000 0]
  note t2 = monthly_inclusion [OF k, of 1772064000000 1835395200000 0]
  have i1: "shouldIncludeThisDay ?p 1772064000000 1772236800000"
    using conjunct1 [OF conjunct2 [OF t1]] md a by simp
  have i2: "shouldIncludeThisDay ?p 1772064000000 1835395200000"
    using conjunct1 [OF conjunct2 [OF t2]] md b by simp
  have i3: "generateAllClassSessions ?p 0 =
     Inr [\<lparr>sessionStartDateTime = 1772269200000, sessionEndDateTime = 1772272800000\<rparr>]"
    using conjunct2 [OF conjunct2 [OF t1]] sl g by simp
  show ?thesis using k a b i1 i2 i3 by simp
qed

subsection \<open>The empty result\<close>

text \<open>
  C5. For every rule kind, when the sessions that survive generation and the future
  buffer are none, the generator returns the no-future-sessions failure (the safety net
  of the custom kind or the final one) and never an empty sequence.
\<close>

theorem empty_result_is_failure:
  "generateAllClassSessions p now \<noteq> Inr [] \<and>
   (\<forall>days. includedDays p = Inr days \<and>
            sessionsOnDays (addMinutes now 30) (dailyTimeSlots p) days = [] \<longrightarrow>
      generateAllClassSessions p now = Inl (NoFutureSessions (safetyNetOf p)))"
  by (simp add: generate_decomposition Let_def split: sum.splits)

theorem empty_result_is_failure_witness:
  "includedDays (sampleRequest EVERY_DAY (Some (Some 0)) (Some (Some 86400000)) [slot0900]) =
     Inr [0, 86400000] \<and>
   sessionsOnDays (addMinutes 172800000 30) [slot0900] [0, 86400000] = [] \<and>
   generateAllClassSessions (sampleRequest EVERY_DAY (Some (Some 0)) (Some (Some 86400000)) [slot0900])
     172800000 = Inl (NoFutureSessions FinalSafetyNet)"
proof -
  have a: "includedDays (sampleRequest EVERY_DAY (Some (Some 0)) (Some (Some 86400000)) [slot0900]) =
     Inr [0, 86400000]" by code_simp
  have b: "sessionsOnDays (addMinutes 172800000 30) [slot0900] [0, 86400000] = []" by code_simp
  have c: "dailyTimeSlots (sampleRequest EVERY_DAY (Some (Some 0)) (Some (Some 86400000)) [slot0900]) = [slot0900]"
    by (simp add: sampleRequest_def)
  have d: "safetyNetOf (sampleRequest EVERY_DAY (Some (Some 0)) (Some (Some 86400000)) [slot0900]) = FinalSafetyNet"
    by (simp add: sampleRequest_def safetyNetOf_def)
  show ?thesis
    using empty_result_is_failure
      [of "sampleRequest EVERY_DAY (Some (Some 0)) (Some (Some 86400000)) [slot0900]" 172800000]
      a b c d by simp
qed

subsection \<open>The future buffer\<close>

text \<open>
  C6. An occurrence (a valid slot on an included day) is kept in the result of the
  generator exactly when its start is at or after now plus 30 minutes. A start 29
  minutes from now is dropped, a start 31 minutes from now is kept, every kept session
  respects the buffer, and dropping raises no error: after validation the generator
  fails only when no session at all survives.
\<close>

theorem future_buffer:
  assumes "includedDays p = Inr days" and "d \<in> set days" and "slot \<in> set (dailyTimeSlots p)"
    and "createValidClassSessionFromDateAndTimes d (startTime24h slot) (endTime24h slot) = Inr s"
  shows "((\<exists>xs. generateAllClassSessions p now = Inr xs \<and> s \<in> set xs) \<longleftrightarrow>
            sessionStartDateTime s \<ge> addMinutes now 30) \<and>
         (sessionStartDateTime s = addMinutes now 29 \<longrightarrow>
            \<not> (\<exists>xs. generateAllClassSessions p now = Inr xs \<and> s \<in> set xs)) \<and>
         (sessionStartDateTime s = addMinutes now 31 \<longrightarrow>
            (\<exists>xs. generateAllClassSessions p now = Inr xs \<and> s \<in> set xs)) \<and>
         (\<forall>xs. generateAllClassSessions p now = Inr xs \<longrightarrow>
            (\<forall>x \<in> set xs. sessionStartDateTime x \<ge> addMinutes now 30)) \<and>
         (\<forall>err. generateAllClassSessions p now = Inl err \<longrightarrow>
            err = NoFutureSessions (safetyNetOf p) \<and>
            sessionsOnDays (addMinutes now 30) (dailyTimeSlots p) days = [])"
proof -
  let ?gen = "sessionsOnDays (addMinutes now 30) (dailyTimeSlots p) days"
  have g: "generateAllClassSessions p now =
             (if ?gen = [] then Inl (NoFutureSessions (safetyNetOf p)) else Inr ?gen)"
    using assms(1) by (simp add: generate_decomposition Let_def)
  have mem: "s \<in> set ?gen \<longleftrightarrow> sessionStartDateTime s \<ge> addMinutes now 30"
  proof
    assume "s \<in> set ?gen"
    then show "sessionStartDateTime s \<ge> addMinutes now 30" by (auto simp: sessionsOnDays_set)
  next
    assume "sessionStartDateTime s \<ge> addMinutes now 30"
    then show "s \<in> set ?gen" using assms(2,3,4) by (auto simp: sessionsOnDays_set)
  qed
  have kept: "(\<exists>xs. generateAllClassSessions p now = Inr xs \<and> s \<in> set xs) \<longleftrightarrow> s \<in> set ?gen"
    by (auto simp: g split: if_splits)
  have all: "\<forall>x \<in> set ?gen. sessionStartDateTime x \<ge> addMinutes now 30"
    by (auto simp: sessionsOnDays_set)
  have c1: "(\<exists>xs. generateAllClassSessions p now = Inr xs \<and> s \<in> set xs) \<longleftrightarrow>
            sessionStartDateTime s \<ge> addMinutes now 30"
    using kept mem by simp
  have c2: "sessionStartDateTime s = addMinutes now 29 \<longrightarrow>
            \<not> (\<exists>xs. generateAllClassSessions p now = Inr xs \<and> s \<in> set xs)"
    unfolding c1 by (simp add: addMinutes_def)
  have c3: "sessionStartDateTime s = addMinutes now 31 \<longrightarrow>
            (\<exists>xs. generateAllClassSessions p now = Inr xs \<and> s \<in> set xs)"
    unfolding c1 by (simp add: addMinutes_def)
  have c4: "\<forall>xs. generateAllClassSessions p now = Inr xs \<longrightarrow>
            (\<forall>x \<in> set xs. sessionStartDateTime x \<ge> addMinutes now 30)"
    using all by (auto simp: g split: if_splits)
  have c5: "\<forall>err. generateAllClassSessions p now = Inl err \<longrightarrow>
            err = NoFutureSessions (safetyNetOf p) \<and> ?gen = []"
    by (auto simp: g split: if_splits)
  show ?thesis by (intro conjI c1 c2 c3 c4 c5)
qed

theorem future_buffer_witness:
  "includedDays (sampleRequest SINGLE_INSTANCE (Some (Some 86400000)) None [slot0900]) =
     Inr [86400000] \<and>
   86400000 \<in> set [86400000 :: int] \<and>
   slot0900 \<in> set (dailyTimeSlots
     (sampleRequest SINGLE_INSTANCE (Some (Some 86400000)) None [slot0900])) \<and>
   createValidClassSessionFromDateAndTimes 86400000 (startTime24h slot0900) (endTime24h slot0900) =
     Inr \<lparr>sessionStartDateTime = 118800000, sessionEndDateTime = 122400000\<rparr> \<and>
   (\<exists>xs. generateAllClassSessions
          (sampleRequest SINGLE_INSTANCE (Some (Some 86400000)) None [slot0900]) 0 = Inr xs \<and>
        \<lparr>sessionStartDateTime = 118800000, sessionEndDateTime = 122400000\<rparr> \<in> set xs) \<and>
   \<not> (\<exists>xs. generateAllClassSessions
          (sampleRequest SINGLE_INSTANCE (Some (Some 86400000)) None [slot0900]) 117060000 = Inr xs \<and>
        \<lparr>sessionStartDateTime = 118800000, sessionEndDateTime = 122400000\<rparr> \<in> set xs)"
proof -
  let ?p = "sampleRequest SINGLE_INSTANCE (Some (Some 86400000)) None [slot0900]"
  let ?s = "\<lparr>sessionStartDateTime = 118800000, sessionEndDateTime = 122400000\<rparr>"
  have a: "includedDays ?p = Inr [86400000]" by code_simp
  have b: "(86400000 :: int) \<in> set [86400000]" by simp
  have c: "slot0900 \<in> set (dailyTimeSlots ?p)" by (simp add: sampleRequest_def)
  have d: "createValidClassSessionFromDateAndTimes 86400000 (startTime24h slot0900)
             (endTime24h slot0900) = Inr ?s" by code_simp
  have e: "sessionStartDateTime ?s \<ge> addMinutes 0 30" by (simp add: addMinutes_def)
  have f: "sessionStartDateTime ?s = addMinutes 117060000 29" by (simp add: addMinutes_def)
  show ?thesis
    using future_buffer [OF a b c d, of 0] future_buffer [OF a b c d, of 117060000] a b c d e f
    by blast
qed

subsection \<open>Series boundaries\<close>

text \<open>
  C7, as stated: every repeating kind without manual dates fails with the missing
  boundary error when the series end is absent and with the invalid range error when the
  end is before the start. A daily request without an end yields the sessions of its
  start day, and a weekly request that ends before it starts fails with the
  no-future-sessions error.
\<close>

theorem boundary_counterexample:
  "recurrenceType (sampleRequest EVERY_DAY (Some (Some 86400000)) None [slot0900]) = EVERY_DAY \<and>
   seriesEndDate (sampleRequest EVERY_DAY (Some (Some 86400000)) None [slot0900]) = None \<and>
   generateAllClassSessions (sampleRequest EVERY_DAY (Some (Some 86400000)) None [slot0900]) 0 =
     Inr [\<lparr>sessionStartDateTime = 118800000, sessionEndDateTime = 122400000\<rparr>] \<and>
   generateAllClassSessions
     (sampleRequest SPECIFIC_WEEKDAYS (Some (Some 172800000)) (Some (Some 86400000)) [slot0900]) 0 =
     Inl (NoFutureSessions FinalSafetyNet)"
  by code_simp

text \<open>
  C7, amended. With at least one time slot: the custom kind without manual dates fails
  with the missing boundary error when the series start or end is absent and with the
  invalid range error when the end is before the start. The daily, weekly and monthly
  kinds take the series start as the boundary when the end is absent, and fail with the
  no-future-sessions error when the end is before the start.
\<close>

theorem boundary_checks:
  assumes "dailyTimeSlots p \<noteq> []"
  shows
   "(recurrenceType p = CUSTOM_LOGIC \<and> manuallyChosenDates p = [] \<longrightarrow>
       ((seriesStartDate p = None \<or> seriesEndDate p = None) \<longrightarrow>
          generateAllClassSessions p now = Inl MissingBoundary) \<and>
       (\<forall>s e. seriesStartDate p = Some (Some s) \<and> seriesEndDate p = Some (Some e) \<and> e < s \<longrightarrow>
          generateAllClassSessions p now = Inl InvalidRange)) \<and>
    (recurrenceType p \<in> {EVERY_DAY, SPECIFIC_WEEKDAYS, SPECIFIC_MONTH_DAYS} \<longrightarrow>
       (seriesEndDate p = None \<longrightarrow>
          generateAllClassSessions p now =
          generateAllClassSessions (p\<lparr>seriesEndDate := seriesStartDate p\<rparr>) now) \<and>
       (\<forall>s e. seriesStartDate p = Some (Some s) \<and> seriesEndDate p = Some (Some e) \<and> e < s \<longrightarrow>
          generateAllClassSessions p now = Inl (NoFutureSessions FinalSafetyNet)))"
proof -
  have c1: "generateAllClassSessions p now = Inl MissingBoundary"
    if "recurrenceType p = CUSTOM_LOGIC" "manuallyChosenDates p = []"
       "seriesStartDate p = None \<or> seriesEndDate p = None"
    using that assms
    by (auto simp: generate_decomposition includedDays_def split: option.splits)
  have c2: "generateAllClassSessions p now = Inl InvalidRange"
    if "recurrenceType p = CUSTOM_LOGIC" "manuallyChosenDates p = []"
       "seriesStartDate p = Some (Some s)" "seriesEndDate p = Some (Some e)" "e < s" for s e
    using that assms by (simp add: generate_decomposition includedDays_def)
  have m: "shouldIncludeThisDay (p\<lparr>seriesEndDate := x\<rparr>) = shouldIncludeThisDay p" for x
    by (auto simp: fun_eq_iff shouldIncludeThisDay_def intervalOf_def)
  have s1: "generateAllClassSessions p now =
          generateAllClassSessions (p\<lparr>seriesEndDate := seriesStartDate p\<rparr>) now"
    if "recurrenceType p \<in> {EVERY_DAY, SPECIFIC_WEEKDAYS, SPECIFIC_MONTH_DAYS}" "seriesEndDate p = None"
    using that assms
    by (auto simp: generate_decomposition includedDays_def newDate_def safetyNetOf_def m Let_def
        split: option.splits)
  have s2: "generateAllClassSessions p now = Inl (NoFutureSessions FinalSafetyNet)"
    if "recurrenceType p \<in> {EVERY_DAY, SPECIFIC_WEEKDAYS, SPECIFIC_MONTH_DAYS}"
       "seriesStartDate p = Some (Some s)" "seriesEndDate p = Some (Some e)" "e < s" for s e
    using that assms
    by (auto simp: generate_decomposition includedDays_def newDate_def safetyNetOf_def
        daysFrom_empty Let_def)
  show ?thesis using c1 c2 s1 s2 by blast
qed

theorem boundary_checks_witness:
  "dailyTimeSlots (sampleRequest CUSTOM_LOGIC (Some (Some 86400000)) None [slot0900]) \<noteq> [] \<and>
   generateAllClassSessions (sampleRequest CUSTOM_LOGIC (Some (Some 86400000)) None [slot0900]) 0 =
     Inl MissingBoundary \<and>
   generateAllClassSessions
     (sampleRequest CUSTOM_LOGIC (Some (Some 172800000)) (Some (Some 86400000)) [slot0900]) 0 =
     Inl InvalidRange \<and>
   generateAllClassSessions (sampleRequest EVERY_DAY (Some (Some 86400000)) None [slot0900]) 0 =
     generateAllClassSessions
       ((sampleRequest EVERY_DAY (Some (Some 86400000)) None [slot0900])
          \<lparr>seriesEndDate := Some (Some 86400000)\<rparr>) 0 \<and>
   generateAllClassSessions
     (sampleRequest SPECIFIC_MONTH_DAYS (Some (Some 172800000)) (Some (Some 86400000)) [slot0900]) 0 =
     Inl (NoFutureSessions FinalSafetyNet)"
proof -
  let ?a = "sampleRequest CUSTOM_LOGIC (Some (Some 86400000)) None [slot0900]"
  let ?b = "sampleRequest CUSTOM_LOGIC (Some (Some 172800000)) (Some (Some 86400000)) [slot0900]"
  let ?c = "sampleRequest EVERY_DAY (Some (Some 86400000)) None [slot0900]"
  let ?d = "sampleRequest SPECIFIC_MONTH_DAYS (Some (Some 172800000)) (Some (Some 86400000)) [slot0900]"
  have sa: "dailyTimeSlots ?a \<noteq> []" by (simp add: sampleRequest_def)
  have sb: "dailyTimeSlots ?b \<noteq> []" by (simp add: sampleRequest_def)
  have sc: "dailyTimeSlots ?c \<noteq> []" by (simp add: sampleRequest_def)
  have sd: "dailyTimeSlots ?d \<noteq> []" by (simp add: sampleRequest_def)
  have a: "generateAllClassSessions ?a 0 = Inl MissingBoundary"
    using boundary_checks [OF sa, of 0] by (simp add: sampleRequest_def)
  have b: "generateAllClassSessions ?b 0 = Inl InvalidRange"
    using boundary_checks [OF sb, of 0] by (simp add: sampleRequest_def)
  have c: "generateAllClassSessions ?c 0 =
     generateAllClassSessions (?c\<lparr>seriesEndDate := Some (Some 86400000)\<rparr>) 0"
    using boundary_checks [OF sc, of 0] by (simp add: sampleRequest_def)
  have d: "generateAllClassSessions ?d 0 = Inl (NoFutureSessions FinalSafetyNet)"
    using boundary_checks [OF sd, of 0] by (simp add: sampleRequest_def)
  show ?thesis using sa a b c d by blast
qed

subsection \<open>Detaching a session\<close>

text \<open>
  C8. After a successful detach from a series that is not a single instance: the store
  holds a new series of kind single instance with exactly one session, at the requested
  times or else at the times of the detached session, with the instructor and room of
  the parent unless overridden; the parent has one more exception, cancelled and anchored
  at the start the session had before the override; and the session is gone from the
  sessions of the parent.
\<close>

theorem detach_postcondition:
  assumes fresh: "\<forall>d \<in> set (classes st). docId d < nextId st"
    and found: "findById st seriesId = Some series"
    and kind: "recurrenceType (rule series) \<noteq> SINGLE_INSTANCE"
    and res: "updateSingleInstance st seriesId sessId body =
                (DetachedSuccessfully newClass parentId, st')"
  shows "\<exists>session parent'.
      find (\<lambda>x. sessionId x = sessId) (preGeneratedClassSessions series) = Some session \<and>
      parentId = seriesId \<and>
      findById st' (docId newClass) = Some newClass \<and>
      docId newClass \<noteq> seriesId \<and>
      recurrenceType (rule newClass) = SINGLE_INSTANCE \<and>
      (\<exists>newId. preGeneratedClassSessions newClass =
         [\<lparr>sessionStartDateTime =
             (case bodyNewStart body of Some t \<Rightarrow> t | None \<Rightarrow> sessionStartDateTime session),
           sessionEndDateTime =
             (case bodyNewEnd body of Some t \<Rightarrow> t | None \<Rightarrow> sessionEndDateTime session),
           sessionId = newId\<rparr>]) \<and>
      assignedInstructor newClass =
        (case bodyAssignedInstructor body of Some i \<Rightarrow> i | None \<Rightarrow> assignedInstructor series) \<and>
      assignedRoom newClass =
        (case bodyAssignedRoom body of Some r \<Rightarrow> r | None \<Rightarrow> assignedRoom series) \<and>
      findById st' seriesId = Some parent' \<and>
      exceptions parent' = exceptions series @
        [\<lparr>originalStart = sessionStartDateTime session, status = cancelled,
          reason = bodyReason body, newStart = None, newEnd = None\<rparr>] \<and>
      preGeneratedClassSessions parent' =
        filter (\<lambda>x. sessionId x \<noteq> sessId) (preGeneratedClassSessions series) \<and>
      session \<notin> set (preGeneratedClassSessions parent')"
proof -
  have idS: "docId series = seriesId" and inS: "series \<in> set (classes st)"
    using found find_docId by (auto simp: findById_def)
  obtain session where sess:
      "find (\<lambda>x. sessionId x = sessId) (preGeneratedClassSessions series) = Some session"
    using res found kind
    by (cases "find (\<lambda>x. sessionId x = sessId) (preGeneratedClassSessions series)")
       (auto simp: updateSingleInstance_def)
  have sid: "sessionId session = sessId" using sess by (auto simp: find_Some_iff)
  let ?fs = "orElse (bodyNewStart body) (sessionStartDateTime session)"
  let ?fe = "orElse (bodyNewEnd body) (sessionEndDateTime session)"
  let ?cr = "createStandalone st
               (orElseString (bodyClassTitle body) (classTitle series))
               (orElse (bodyAssignedInstructor body) (assignedInstructor series))
               (orElse (bodyAssignedRoom body) (assignedRoom series)) ?fs ?fe"
  let ?p = "series
      \<lparr>exceptions := exceptions series @
         [\<lparr>originalStart = sessionStartDateTime session, status = cancelled,
           reason = bodyReason body, newStart = None, newEnd = None\<rparr>],
       preGeneratedClassSessions :=
         filter (\<lambda>x. sessionId x \<noteq> sessId) (preGeneratedClassSessions series)\<rparr>"
  obtain st1 where cr: "?cr = Some (newClass, st1)" and sv: "saveValidated st1 ?p = Some st'"
    and pid0: "parentId = seriesId"
    using res found kind sess idS
    by (auto simp: updateSingleInstance_def Let_def split: sum.splits option.splits prod.splits)
  have r: "parentId = seriesId \<and> st' = save st1 ?p"
    using sv pid0 by (auto simp: saveValidated_def split: if_splits)
  have nid: "docId newClass = nextId st"
    using cr by (auto simp: createStandalone_def Let_def split: if_splits)
  have cls: "classes st1 = classes st @ [newClass]"
    using cr by (auto simp: createStandalone_def Let_def split: if_splits)
  have ne: "nextId st \<noteq> seriesId" using fresh inS idS by auto
  have pid: "docId ?p = seriesId" using idS by simp
  have fnew: "findById st1 (nextId st) = Some newClass"
    unfolding findById_def cls using fresh nid by (intro find_append_fresh) auto
  have fold: "findById st1 seriesId = Some series"
    unfolding findById_def cls using found by (intro find_append_old) (simp add: findById_def)
  have g1: "findById st' (docId newClass) = Some newClass"
    using r fnew nid ne pid by (simp add: findById_save)
  have g2: "findById st' seriesId = Some ?p"
    using r fold pid idS by (simp add: findById_save)
  have g3: "session \<notin> set (preGeneratedClassSessions ?p)" using sid by simp
  have g4: "recurrenceType (rule newClass) = SINGLE_INSTANCE \<and>
      (\<exists>newId. preGeneratedClassSessions newClass =
         [\<lparr>sessionStartDateTime =
             (case bodyNewStart body of Some t \<Rightarrow> t | None \<Rightarrow> sessionStartDateTime session),
           sessionEndDateTime =
             (case bodyNewEnd body of Some t \<Rightarrow> t | None \<Rightarrow> sessionEndDateTime session),
           sessionId = newId\<rparr>]) \<and>
      assignedInstructor newClass =
        (case bodyAssignedInstructor body of Some i \<Rightarrow> i | None \<Rightarrow> assignedInstructor series) \<and>
      assignedRoom newClass =
        (case bodyAssignedRoom body of Some r \<Rightarrow> r | None \<Rightarrow> assignedRoom series)"
    using cr by (auto simp: createStandalone_def Let_def orElse_def split: if_splits)
  show ?thesis
    using sess r g1 g2 g3 g4 nid ne by (intro exI [of _ session] exI [of _ ?p]) simp
qed

theorem detach_postcondition_witness:
  "map docId (classes (sampleStore
       [sampleDoc 1 ''Yoga'' 20 10 SPECIFIC_WEEKDAYS
          [storedSession 118800000 122400000 2, storedSession 723600000 727200000 3],
        sampleDoc 5 ''Pilates'' 21 11 EVERY_DAY [storedSession 118800000 122400000 6]])) = [1, 5] \<and>
   nextId (sampleStore
       [sampleDoc 1 ''Yoga'' 20 10 SPECIFIC_WEEKDAYS
          [storedSession 118800000 122400000 2, storedSession 723600000 727200000 3],
        sampleDoc 5 ''Pilates'' 21 11 EVERY_DAY [storedSession 118800000 122400000 6]]) = 100 \<and>
   fst (updateSingleInstance (sampleStore
       [sampleDoc 1 ''Yoga'' 20 10 SPECIFIC_WEEKDAYS
          [storedSession 118800000 122400000 2, storedSession 723600000 727200000 3],
        sampleDoc 5 ''Pilates'' 21 11 EVERY_DAY [storedSession 118800000 122400000 6]]) 1 2
     (emptyBody\<lparr>bodyNewStart := Some 126000000, bodyNewEnd := Some 129600000,
                 bodyAssignedRoom := Some 11\<rparr>)) =
     DetachedSuccessfully
       \<lparr>docId = 100, classTitle = ''Yoga'', assignedInstructor = 20, assignedRoom = 11,
        rule = \<lparr>seriesStartDate = Some (Some 126000000),
                seriesEndDate = Some (Some 129600000),
                recurrenceType = SINGLE_INSTANCE,
                dailyTimeSlots = [\<lparr>startTime24h = (Some 11, Some 0), endTime24h = (Some 12, Some 0)\<rparr>],
                selectedWeekdays = [], selectedMonthDays = [],
                repeatEveryXWeeksOrDays = Some 1, manuallyChosenDates = []\<rparr>,
        preGeneratedClassSessions = [storedSession 126000000 129600000 101],
        exceptions = []\<rparr> 1 \<and>
   (\<exists>parent'. findById (snd (updateSingleInstance (sampleStore
       [sampleDoc 1 ''Yoga'' 20 10 SPECIFIC_WEEKDAYS
          [storedSession 118800000 122400000 2, storedSession 723600000 727200000 3],
        sampleDoc 5 ''Pilates'' 21 11 EVERY_DAY [storedSession 118800000 122400000 6]]) 1 2
     (emptyBody\<lparr>bodyNewStart := Some 126000000, bodyNewEnd := Some 129600000,
                 bodyAssignedRoom := Some 11\<rparr>))) 1 = Some parent' \<and>
      exceptions parent' =
        [\<lparr>originalStart = 118800000, status = cancelled, reason = ''Detached from series'',
          newStart = None, newEnd = None\<rparr>] \<and>
      preGeneratedClassSessions parent' = [storedSession 723600000 727200000 3])"
proof -
  let ?d1 = "sampleDoc 1 ''Yoga'' 20 10 SPECIFIC_WEEKDAYS
          [storedSession 118800000 122400000 2, storedSession 723600000 727200000 3]"
  let ?st = "sampleStore [?d1,
        sampleDoc 5 ''Pilates'' 21 11 EVERY_DAY [storedSession 118800000 122400000 6]]"
  let ?body = "emptyBody\<lparr>bodyNewStart := Some 126000000, bodyNewEnd := Some 129600000,
                 bodyAssignedRoom := Some 11\<rparr>"
  let ?new = "\<lparr>docId = 100, classTitle = ''Yoga'', assignedInstructor = 20, assignedRoom = 11,
        rule = \<lparr>seriesStartDate = Some (Some 126000000),
                seriesEndDate = Some (Some 129600000),
                recurrenceType = SINGLE_INSTANCE,
                dailyTimeSlots = [\<lparr>startTime24h = (Some 11, Some 0), endTime24h = (Some 12, Some 0)\<rparr>],
                selectedWeekdays = [], selectedMonthDays = [],
                repeatEveryXWeeksOrDays = Some 1, manuallyChosenDates = []\<rparr>,
        preGeneratedClassSessions = [storedSession 126000000 129600000 101],
        exceptions = []\<rparr>"
  have fresh: "\<forall>d \<in> set (classes ?st). docId d < nextId ?st"
    by (simp add: sampleStore_def sampleDoc_def)
  have found: "findById ?st 1 = Some ?d1"
    by (simp add: findById_def sampleStore_def sampleDoc_def)
  have kind: "recurrenceType (rule ?d1) \<noteq> SINGLE_INSTANCE"
    by (simp add: sampleDoc_def sampleRequest_def)
  have noconf: "findDetailedSchedulingConflict ?st
      [\<lparr>sessionStartDateTime = 126000000, sessionEndDateTime = 129600000\<rparr>] 11 20 (Some 1) =
      Inr None"
    by (simp add: findDetailedSchedulingConflict_def
      baseQuery_def notIgnored_def hasOverlappingSession_def findOverlappingSession_def
      elemMatchOverlap_def rescanOverlap_def sampleStore_def sampleDoc_def storedSession_def)
  have sess: "find (\<lambda>x. sessionId x = 2) (preGeneratedClassSessions ?d1) =
      Some (storedSession 118800000 122400000 2)"
    by (simp add: sampleDoc_def storedSession_def)
  have flds: "classTitle ?d1 = ''Yoga''" "assignedInstructor ?d1 = 20" "assignedRoom ?d1 = 10"
    "exceptions ?d1 = []"
    "preGeneratedClassSessions ?d1 =
       [storedSession 118800000 122400000 2, storedSession 723600000 727200000 3]"
    by (simp_all add: sampleDoc_def)
  have f: "fst (updateSingleInstance ?st 1 2 ?body) = DetachedSuccessfully ?new 1"
    by code_simp
  have res: "updateSingleInstance ?st 1 2 ?body =
      (DetachedSuccessfully ?new 1, snd (updateSingleInstance ?st 1 2 ?body))"
    using f by (metis prod.collapse)
  obtain session parent' where p:
      "find (\<lambda>x. sessionId x = 2) (preGeneratedClassSessions ?d1) = Some session"
      "findById (snd (updateSingleInstance ?st 1 2 ?body)) 1 = Some parent'"
      "exceptions parent' = exceptions ?d1 @
        [\<lparr>originalStart = sessionStartDateTime session, status = cancelled,
          reason = bodyReason ?body, newStart = None, newEnd = None\<rparr>]"
      "preGeneratedClassSessions parent' =
        filter (\<lambda>x. sessionId x \<noteq> 2) (preGeneratedClassSessions ?d1)"
    using detach_postcondition [OF fresh found kind res] by blast
  have s: "session = storedSession 118800000 122400000 2" using p(1) sess by simp
  have e: "exceptions parent' =
        [\<lparr>originalStart = 118800000, status = cancelled, reason = ''Detached from series'',
          newStart = None, newEnd = None\<rparr>]"
    using p(3) s flds(4) by (simp add: storedSession_def emptyBody_def)
  have g: "preGeneratedClassSessions parent' = [storedSession 723600000 727200000 3]"
    using p(4) flds(5) by (simp add: storedSession_def)
  have ids: "map docId (classes ?st) = [1, 5]" "nextId ?st = 100"
    by (simp_all add: sampleStore_def sampleDoc_def)
  show ?thesis using ids f p(2) e g by blast
qed

subsection \<open>Attribution of a conflict\<close>





subsection \<open>Updating a standalone class in place\<close>

text \<open>
  C10, as stated: when the series of a single-instance update is already a single
  instance, the update writes the title, instructor, room and the start and end of the
  stored session and persists, without a conflict check. A requested title of three
  blanks passes the request validation, is trimmed to nothing by the schema, and the save
  is rejected: the answer is the update error and the stored document is unchanged.
\<close>

theorem standalone_update_counterexample:
  "fst (updateSingleInstance (sampleStore
       [sampleDoc 1 ''Yoga'' 20 10 SINGLE_INSTANCE [storedSession 118800000 122400000 2],
        sampleDoc 3 ''Pilates'' 21 10 EVERY_DAY [storedSession 126000000 129600000 4]]) 1 2
     (emptyBody\<lparr>bodyNewStart := Some 126000000, bodyNewEnd := Some 129600000,
                 bodyClassTitle := Some ''   ''\<rparr>)) = UpdateError \<and>
   findById (snd (updateSingleInstance (sampleStore
       [sampleDoc 1 ''Yoga'' 20 10 SINGLE_INSTANCE [storedSession 118800000 122400000 2],
        sampleDoc 3 ''Pilates'' 21 10 EVERY_DAY [storedSession 126000000 129600000 4]]) 1 2
     (emptyBody\<lparr>bodyNewStart := Some 126000000, bodyNewEnd := Some 129600000,
                 bodyClassTitle := Some ''   ''\<rparr>))) 1 =
     Some (sampleDoc 1 ''Yoga'' 20 10 SINGLE_INSTANCE [storedSession 118800000 122400000 2])"
  by code_simp

text \<open>
  C10, amended. When the series of a single-instance update is already a single instance,
  the update runs no conflict check: the response is never a conflict, also when the new
  interval overlaps a booking of the same room. The requested title (or else the stored
  one) is trimmed; when nothing is left the save is rejected and nothing is written;
  otherwise the trimmed title, the instructor, the room and the start and end of the
  first stored session are written into the document and saved. A series without a
  stored session is saved when no new start or end is requested, and answers the update
  error otherwise.
\<close>

theorem standalone_update_skips_conflict_check:
  fixes st :: store and seriesId sessId :: oid and body :: instanceBody and series :: IClassSchedule
  defines "whiteSpace \<equiv> (\<lambda>c. (of_char c :: nat) \<in> {9, 10, 11, 12, 13, 32, 160})"
    and "requested \<equiv>
      (case bodyClassTitle body of
         None \<Rightarrow> classTitle series
       | Some t \<Rightarrow> if t = [] then classTitle series else t)"
  assumes found: "findById st seriesId = Some series"
    and kind: "recurrenceType (rule series) = SINGLE_INSTANCE"
  shows "(\<forall>c. fst (updateSingleInstance st seriesId sessId body) \<noteq> Conflict c) \<and>
         (\<exists>l title r.
            requested = l @ title @ r \<and>
            (\<forall>c \<in> set l. whiteSpace c) \<and> (\<forall>c \<in> set r. whiteSpace c) \<and>
            (title \<noteq> [] \<longrightarrow> \<not> whiteSpace (hd title) \<and> \<not> whiteSpace (last title)) \<and>
            (title = [] \<longrightarrow> updateSingleInstance st seriesId sessId body = (UpdateError, st)) \<and>
            (title \<noteq> [] \<longrightarrow>
               (\<forall>first others. preGeneratedClassSessions series = first # others \<longrightarrow>
                  (let updated = series
                         \<lparr>classTitle := title,
                          assignedInstructor :=
                            (case bodyAssignedInstructor body of Some i \<Rightarrow> i
                             | None \<Rightarrow> assignedInstructor series),
                          assignedRoom :=
                            (case bodyAssignedRoom body of Some r \<Rightarrow> r
                             | None \<Rightarrow> assignedRoom series),
                          preGeneratedClassSessions :=
                            first\<lparr>sessionStartDateTime :=
                                    (case bodyNewStart body of Some t \<Rightarrow> t
                                     | None \<Rightarrow> sessionStartDateTime first),
                                  sessionEndDateTime :=
                                    (case bodyNewEnd body of Some t \<Rightarrow> t
                                     | None \<Rightarrow> sessionEndDateTime first)\<rparr> # others\<rparr>
                   in updateSingleInstance st seriesId sessId body =
                        (Updated updated, save st updated) \<and>
                      findById (save st updated) seriesId = Some updated)) \<and>
               (preGeneratedClassSessions series = [] \<longrightarrow>
                  (bodyNewStart body \<noteq> None \<or> bodyNewEnd body \<noteq> None \<longrightarrow>
                     updateSingleInstance st seriesId sessId body = (UpdateError, st)) \<and>
                  (bodyNewStart body = None \<and> bodyNewEnd body = None \<longrightarrow>
                     (let updated = series
                            \<lparr>classTitle := title,
                             assignedInstructor :=
                               (case bodyAssignedInstructor body of Some i \<Rightarrow> i
                                | None \<Rightarrow> assignedInstructor series),
                             assignedRoom :=
                               (case bodyAssignedRoom body of Some r \<Rightarrow> r
                                | None \<Rightarrow> assignedRoom series)\<rparr>
                      in updateSingleInstance st seriesId sessId body =
                           (Updated updated, save st updated))))))"
proof -
  have idS: "docId series = seriesId"
    using found find_docId by (auto simp: findById_def)
  have ws: "whiteSpace = isWhiteSpace"
    by (simp add: fun_eq_iff whiteSpace_def isWhiteSpace_def)
  have rq: "orElseString (bodyClassTitle body) (classTitle series) = requested"
    by (simp add: orElseString_def requested_def)
  define title where "title = trim requested"
  obtain l r where dec: "requested = l @ title @ r" "\<forall>c \<in> set l. whiteSpace c"
      "\<forall>c \<in> set r. whiteSpace c"
      "title \<noteq> [] \<longrightarrow> \<not> whiteSpace (hd title) \<and> \<not> whiteSpace (last title)"
    using trim_decomposition [of requested] unfolding ws title_def by blast
  have a: "\<forall>c. fst (updateSingleInstance st seriesId sessId body) \<noteq> Conflict c"
    using found kind
    by (auto simp: updateSingleInstance_def Let_def saveValidated_def
        split: list.splits option.splits)
  have empty: "updateSingleInstance st seriesId sessId body = (UpdateError, st)" if "title = []"
    using found kind that
    by (auto simp: updateSingleInstance_def Let_def saveValidated_def requiredPathsPresent_def
        rq title_def split: list.splits option.splits)
  have b: "(let updated = series
                         \<lparr>classTitle := title,
                          assignedInstructor :=
                            (case bodyAssignedInstructor body of Some i \<Rightarrow> i
                             | None \<Rightarrow> assignedInstructor series),
                          assignedRoom :=
                            (case bodyAssignedRoom body of Some r \<Rightarrow> r
                             | None \<Rightarrow> assignedRoom series),
                          preGeneratedClassSessions :=
                            first\<lparr>sessionStartDateTime :=
                                    (case bodyNewStart body of Some t \<Rightarrow> t
                                     | None \<Rightarrow> sessionStartDateTime first),
                                  sessionEndDateTime :=
                                    (case bodyNewEnd body of Some t \<Rightarrow> t
                                     | None \<Rightarrow> sessionEndDateTime first)\<rparr> # others\<rparr>
                   in updateSingleInstance st seriesId sessId body =
                        (Updated updated, save st updated) \<and>
                      findById (save st updated) seriesId = Some updated)"
    if "title \<noteq> []" "preGeneratedClassSessions series = first # others" for first others
    using found kind that idS
    by (cases "bodyNewStart body"; cases "bodyNewEnd body")
       (simp_all add: updateSingleInstance_def Let_def orElse_def findById_save
          saveValidated_def requiredPathsPresent_def rq title_def)
  have c1: "updateSingleInstance st seriesId sessId body = (UpdateError, st)"
    if "preGeneratedClassSessions series = []"
       "bodyNewStart body \<noteq> None \<or> bodyNewEnd body \<noteq> None"
    using found kind that by (auto simp: updateSingleInstance_def Let_def)
  have c2: "(let updated = series
                            \<lparr>classTitle := title,
                             assignedInstructor :=
                               (case bodyAssignedInstructor body of Some i \<Rightarrow> i
                                | None \<Rightarrow> assignedInstructor series),
                             assignedRoom :=
                               (case bodyAssignedRoom body of Some r \<Rightarrow> r
                                | None \<Rightarrow> assignedRoom series)\<rparr>
                      in updateSingleInstance st seriesId sessId body =
                           (Updated updated, save st updated))"
    if "title \<noteq> []" "preGeneratedClassSessions series = []"
       "bodyNewStart body = None \<and> bodyNewEnd body = None"
    using found kind that
    by (simp add: updateSingleInstance_def Let_def orElse_def saveValidated_def
        requiredPathsPresent_def rq title_def)
  show ?thesis
    using a dec empty b c1 c2
    by (intro conjI exI [of _ l] exI [of _ title] exI [of _ r]) blast+
qed


theorem standalone_update_skips_conflict_check_witness:
  "findById (sampleStore
       [sampleDoc 1 ''Yoga'' 20 10 SINGLE_INSTANCE [storedSession 118800000 122400000 2],
        sampleDoc 3 ''Pilates'' 21 10 EVERY_DAY [storedSession 126000000 129600000 4]]) 1 =
     Some (sampleDoc 1 ''Yoga'' 20 10 SINGLE_INSTANCE [storedSession 118800000 122400000 2]) \<and>
   recurrenceType (rule (sampleDoc 1 ''Yoga'' 20 10 SINGLE_INSTANCE
       [storedSession 118800000 122400000 2])) = SINGLE_INSTANCE \<and>
   findDetailedSchedulingConflict (sampleStore
       [sampleDoc 1 ''Yoga'' 20 10 SINGLE_INSTANCE [storedSession 118800000 122400000 2],
        sampleDoc 3 ''Pilates'' 21 10 EVERY_DAY [storedSession 126000000 129600000 4]])
     [\<lparr>sessionStartDateTime = 126000000, sessionEndDateTime = 129600000\<rparr>] 10 20 (Some 1) =
     Inr (Some \<lparr>field = assignedRoomField,
                message = ConflictDetected (RoomIs ''Room A'') 126000000 129600000\<rparr>) \<and>
   fst (updateSingleInstance (sampleStore
       [sampleDoc 1 ''Yoga'' 20 10 SINGLE_INSTANCE [storedSession 118800000 122400000 2],
        sampleDoc 3 ''Pilates'' 21 10 EVERY_DAY [storedSession 126000000 129600000 4]]) 1 2
     (emptyBody\<lparr>bodyNewStart := Some 126000000, bodyNewEnd := Some 129600000,
                 bodyClassTitle := Some ''  Yoga Flow ''\<rparr>)) \<noteq>
     Conflict \<lparr>field = assignedRoomField,
               message = ConflictDetected (RoomIs ''Room A'') 126000000 129600000\<rparr> \<and>
   fst (updateSingleInstance (sampleStore
       [sampleDoc 1 ''Yoga'' 20 10 SINGLE_INSTANCE [storedSession 118800000 122400000 2],
        sampleDoc 3 ''Pilates'' 21 10 EVERY_DAY [storedSession 126000000 129600000 4]]) 1 2
     (emptyBody\<lparr>bodyNewStart := Some 126000000, bodyNewEnd := Some 129600000,
                 bodyClassTitle := Some ''  Yoga Flow ''\<rparr>)) =
     Updated (sampleDoc 1 ''Yoga Flow'' 20 10 SINGLE_INSTANCE
                [storedSession 126000000 129600000 2]) \<and>
   findById (snd (updateSingleInstance (sampleStore
       [sampleDoc 1 ''Yoga'' 20 10 SINGLE_INSTANCE [storedSession 118800000 122400000 2],
        sampleDoc 3 ''Pilates'' 21 10 EVERY_DAY [storedSession 126000000 129600000 4]]) 1 2
     (emptyBody\<lparr>bodyNewStart := Some 126000000, bodyNewEnd := Some 129600000,
                 bodyClassTitle := Some ''  Yoga Flow ''\<rparr>))) 1 =
     Some (sampleDoc 1 ''Yoga Flow'' 20 10 SINGLE_INSTANCE
             [storedSession 126000000 129600000 2]) \<and>
   fst (updateSingleInstance (sampleStore
       [sampleDoc 1 ''Yoga'' 20 10 SINGLE_INSTANCE [storedSession 118800000 122400000 2],
        sampleDoc 3 ''Pilates'' 21 10 EVERY_DAY [storedSession 126000000 129600000 4]]) 1 2
     (emptyBody\<lparr>bodyClassTitle := Some ''   ''\<rparr>)) = UpdateError \<and>
   findById (snd (updateSingleInstance (sampleStore
       [sampleDoc 1 ''Yoga'' 20 10 SINGLE_INSTANCE [storedSession 118800000 122400000 2],
        sampleDoc 3 ''Pilates'' 21 10 EVERY_DAY [storedSession 126000000 129600000 4]]) 1 2
     (emptyBody\<lparr>bodyClassTitle := Some ''   ''\<rparr>))) 1 =
     Some (sampleDoc 1 ''Yoga'' 20 10 SINGLE_INSTANCE [storedSession 118800000 122400000 2])"
proof -
  let ?d1 = "sampleDoc 1 ''Yoga'' 20 10 SINGLE_INSTANCE [storedSession 118800000 122400000 2]"
  let ?st = "sampleStore [?d1,
        sampleDoc 3 ''Pilates'' 21 10 EVERY_DAY [storedSession 126000000 129600000 4]]"
  let ?body = "emptyBody\<lparr>bodyNewStart := Some 126000000, bodyNewEnd := Some 129600000,
                 bodyClassTitle := Some ''  Yoga Flow ''\<rparr>"
  let ?blank = "emptyBody\<lparr>bodyClassTitle := Some ''   ''\<rparr>"
  let ?new = "sampleDoc 1 ''Yoga Flow'' 20 10 SINGLE_INSTANCE [storedSession 126000000 129600000 2]"
  have f: "findById ?st 1 = Some ?d1"
    by (simp add: findById_def sampleStore_def sampleDoc_def)
  have k: "recurrenceType (rule ?d1) = SINGLE_INSTANCE"
    by (simp add: sampleDoc_def sampleRequest_def)
  have c: "findDetailedSchedulingConflict ?st
     [\<lparr>sessionStartDateTime = 126000000, sessionEndDateTime = 129600000\<rparr>] 10 20 (Some 1) =
     Inr (Some \<lparr>field = assignedRoomField,
                message = ConflictDetected (RoomIs ''Room A'') 126000000 129600000\<rparr>)"
    by (simp add: findDetailedSchedulingConflict_def baseQuery_def notIgnored_def
        hasOverlappingSession_def findOverlappingSession_def elemMatchOverlap_def
        rescanOverlap_def sampleStore_def sampleDoc_def storedSession_def)
  have n: "fst (updateSingleInstance ?st 1 2 ?body) \<noteq>
     Conflict \<lparr>field = assignedRoomField,
               message = ConflictDetected (RoomIs ''Room A'') 126000000 129600000\<rparr>"
    using conjunct1 [OF standalone_update_skips_conflict_check [OF f k,
          where sessId = 2 and body = ?body]] by blast
  have u: "fst (updateSingleInstance ?st 1 2 ?body) = Updated ?new" by code_simp
  have p: "findById (snd (updateSingleInstance ?st 1 2 ?body)) 1 = Some ?new" by code_simp
  have e: "fst (updateSingleInstance ?st 1 2 ?blank) = UpdateError" by code_simp
  have q: "findById (snd (updateSingleInstance ?st 1 2 ?blank)) 1 = Some ?d1" by code_simp
  show ?thesis using f k c n u p e q by blast
qed

end
